theory Spec2Isabelle
  imports Complex_Main "HOL-Library.Word"
begin

section \<open>Data model of the document analyzer\<close>

text \<open>
  The embedding follows \<^verbatim>\<open>src/services/DocumentAnalyzer.js\<close>.  A JavaScript number is
  modelled as a \<^typ>\<open>real\<close>: the arithmetic of the analyzer is read as exact arithmetic, so
  the rounding of IEEE-754 doubles and the values NaN and Infinity are outside the model.
  An array is a list, a \<^verbatim>\<open>Map\<close> is an association list in insertion order (the order in
  which JavaScript iterates it), a \<^verbatim>\<open>Set\<close> is a duplicate-free list in insertion order,
  and a thrown exception is the left injection of a sum.
\<close>

type_synonym bytes = "8 word list"

text \<open>An \<^verbatim>\<open>Error\<close> object: its constructor name, its message and its optional cause.\<close>

datatype js_error = JsError (err_name: string) (err_message: string) (err_cause: "js_error option")

text \<open>\<^verbatim>\<open>new Error(message)\<close>, as every \<^verbatim>\<open>throw\<close> of the analyzer writes it: no cause.\<close>

definition new_Error :: "string \<Rightarrow> js_error" where
  "new_Error msg = JsError ''Error'' msg None"

text \<open>The \<^verbatim>\<open>TypeError\<close> the runtime throws on reading a property of \<^verbatim>\<open>undefined\<close>
  and on \<^verbatim>\<open>reduce\<close> of an empty array with no initial value.\<close>

definition TypeError :: "string \<Rightarrow> js_error" where
  "TypeError msg = JsError ''TypeError'' msg None"

record position =
  pos_x :: real
  pos_y :: real

text \<open>One entry of \<^verbatim>\<open>fontMetrics\<close> (a text run).\<close>

record metric =
  run_text :: string
  fontSize :: real
  fontFamily :: string
  run_position :: position
  width :: real
  height :: real

text \<open>The three labels \<^verbatim>\<open>determineContext\<close> returns:
  \<^verbatim>\<open>'header'\<close>, \<^verbatim>\<open>'subheader'\<close>, \<^verbatim>\<open>'body'\<close>.\<close>

datatype ctx = Header | Subheader | Body

datatype issue_details = SizeDetails (d_mean: real) (d_variance: real) | SpacingDetails (d_spacing: real)

text \<open>An inconsistency object.  The detectors set different fields; a field a detector
  does not set is \<^term>\<open>None\<close>.\<close>

record issue =
  issue_type :: string
  issue_context :: "ctx option"
  issue_position :: "position option"
  description :: string
  severity :: string
  detectedFonts :: "string list option"
  details :: "issue_details option"

section \<open>Context classifier\<close>

definition determineContext :: "metric \<Rightarrow> ctx" where
  "determineContext m =
     (if fontSize m > 20 then Header
      else if fontSize m > 14 then Subheader
      else Body)"

section \<open>Scoring engine\<close>

text \<open>The font inventory entry \<^verbatim>\<open>{name, occurrences}\<close> that \<^verbatim>\<open>analyzePDF\<close> adds.\<close>

record detected_font =
  font_name :: string
  occurrences :: nat

text \<open>
  A value of the \<^verbatim>\<open>inconsistencies\<close> object is either an array of issues (what the
  detectors return, and what the repository's test passes for all three keys) or the
  object \<^verbatim>\<open>{issues, detectedFonts}\<close> by which \<^verbatim>\<open>analyzePDF\<close> replaces the
  \<^verbatim>\<open>fontFamily\<close> entry.
\<close>

datatype issues_entry = IssueArray "issue list" | IssueObject "issue list" "detected_font list"

record inconsistencies =
  inc_fontFamily :: issues_entry
  inc_fontSize :: "issue list"
  inc_spacing :: "issue list"

text \<open>\<^verbatim>\<open>Object.entries(inconsistencies)\<close>: the keys in creation order.\<close>

definition entries :: "inconsistencies \<Rightarrow> (string \<times> issues_entry) list" where
  "entries inc =
     [(''fontFamily'', inc_fontFamily inc),
      (''fontSize'', IssueArray (inc_fontSize inc)),
      (''spacing'', IssueArray (inc_spacing inc))]"

definition weights :: "(string \<times> real) list" where
  "weights = [(''fontFamily'', 0.4), (''fontSize'', 0.3), (''spacing'', 0.3)]"

text \<open>\<^verbatim>\<open>Array.isArray(issues) ? issues : (issues.issues || [])\<close>\<close>

fun issuesList :: "issues_entry \<Rightarrow> issue list" where
  "issuesList (IssueArray xs) = xs"
| "issuesList (IssueObject xs fonts) = xs"

definition severityMultiplier :: "issue \<Rightarrow> real" where
  "severityMultiplier i =
     (if severity i = ''high'' then 1
      else if severity i = ''medium'' then 0.6
      else 0.3)"

definition issueScore :: "issue list \<Rightarrow> real" where
  "issueScore xs = foldl (\<lambda>sum i. sum + severityMultiplier i) 0 xs"

definition calculateSeverityScore :: "inconsistencies \<Rightarrow> real" where
  "calculateSeverityScore inc =
     foldl (\<lambda>score (type, issues).
              let typeWeight = (case map_of weights type of Some w \<Rightarrow> w | None \<Rightarrow> 0)
              in score + issueScore (issuesList issues) * typeWeight)
       0 (entries inc)"

definition calculateConfidenceScore :: "nat \<Rightarrow> real \<Rightarrow> real" where
  "calculateConfidenceScore totalIssues severityScore =
     (let baseConfidence = min 1 (max 0 (1 - severityScore / 10));
          issuesPenalty = min 0.5 (real totalIssues * 0.1)
      in max 0 (baseConfidence - issuesPenalty))"

record summary =
  totalIssues :: nat
  fontFamilyIssues :: nat
  fontSizeIssues :: nat
  spacingIssues :: nat

record report_details =
  det_fontFamily_issues :: "issue list"
  det_fontFamily_detectedFonts :: "detected_font list"
  det_fontSize :: "issue list"
  det_spacing :: "issue list"

record report =
  timestamp :: string
  suspicious :: bool
  rep_severityScore :: real
  confidence :: real
  rep_summary :: summary
  rep_details :: report_details

text \<open>The count of \<^verbatim>\<open>generateReport\<close>: an array adds its length, an object with an
  \<^verbatim>\<open>issues\<close> array adds that array's length.\<close>

definition count_totalIssues :: "inconsistencies \<Rightarrow> nat" where
  "count_totalIssues inc =
     foldl (\<lambda>sum issues.
              (case issues of
                 IssueArray xs \<Rightarrow> sum + length xs
               | IssueObject xs fonts \<Rightarrow> sum + length xs))
       0 (map snd (entries inc))"

text \<open>
  \<^verbatim>\<open>generateReport\<close>.  The parameter \<open>now\<close> is the value of
  \<^verbatim>\<open>new Date().toISOString()\<close>.  The summary reads
  \<^verbatim>\<open>inconsistencies.fontFamily.issues.length\<close>: when the \<^verbatim>\<open>fontFamily\<close> entry is
  an array, \<^verbatim>\<open>.issues\<close> is \<^verbatim>\<open>undefined\<close> and reading its length throws.
\<close>

definition generateReport :: "string \<Rightarrow> inconsistencies \<Rightarrow> js_error + report" where
  "generateReport now inc =
     (let n_issues = count_totalIssues inc;
          severityScore = calculateSeverityScore inc
      in case inc_fontFamily inc of
           IssueArray xs \<Rightarrow>
             Inl (TypeError ''Cannot read properties of undefined (reading 'length')'')
         | IssueObject ff_issues fonts \<Rightarrow>
             Inr \<lparr> timestamp = now,
                   suspicious = (n_issues > 0),
                   rep_severityScore = severityScore,
                   confidence = calculateConfidenceScore n_issues severityScore,
                   rep_summary = \<lparr> totalIssues = n_issues,
                                   fontFamilyIssues = length ff_issues,
                                   fontSizeIssues = length (inc_fontSize inc),
                                   spacingIssues = length (inc_spacing inc) \<rparr>,
                   rep_details = \<lparr> det_fontFamily_issues = ff_issues,
                                   det_fontFamily_detectedFonts = fonts,
                                   det_fontSize = inc_fontSize inc,
                                   det_spacing = inc_spacing inc \<rparr> \<rparr>)"

section \<open>Maps and sets in insertion order\<close>

text \<open>\<^verbatim>\<open>Map.prototype.set\<close>: a present key keeps its place and gets the new value, an
  absent key is appended.\<close>

fun map_set :: "'k \<Rightarrow> 'v \<Rightarrow> ('k \<times> 'v) list \<Rightarrow> ('k \<times> 'v) list" where
  "map_set k v [] = [(k, v)]"
| "map_set k v ((k', v') # m) = (if k' = k then (k, v) # m else (k', v') # map_set k v m)"

text \<open>\<^verbatim>\<open>Set.prototype.add\<close>: a new element is appended, a present one changes nothing.\<close>

definition set_add :: "'a \<Rightarrow> 'a list \<Rightarrow> 'a list" where
  "set_add x s = (if x \<in> set s then s else s @ [x])"

text \<open>\<^verbatim>\<open>[...new Set(xs)]\<close>: the distinct elements in order of first occurrence.\<close>

definition unique :: "'a list \<Rightarrow> 'a list" where
  "unique xs = foldl (\<lambda>s x. set_add x s) [] xs"

text \<open>Decimal digits of a number, for the template strings.\<close>

fun string_of_nat :: "nat \<Rightarrow> string" where
  "string_of_nat n =
     (if n < 10 then [char_of (48 + n)]
      else string_of_nat (n div 10) @ [char_of (48 + n mod 10)])"

declare string_of_nat.simps [simp del]

section \<open>Font-family detector\<close>

text \<open>
  One step of the grouping loop: \<^verbatim>\<open>if (!groups.has(context)) groups.set(context, new Set());
  groups.get(context).add(metric.fontFamily)\<close>.  The \<^verbatim>\<open>add\<close> changes the set in its place
  in the map.  (The \<^verbatim>\<open>get\<close> finds the context, which the line before has put there.)
\<close>

definition familyGroups_step ::
  "(ctx \<times> string list) list \<Rightarrow> metric \<Rightarrow> (ctx \<times> string list) list" where
  "familyGroups_step groups m =
     (let context = determineContext m;
          groups1 = (if map_of groups context = None then map_set context [] groups else groups);
          fonts = (case map_of groups1 context of None \<Rightarrow> [] | Some s \<Rightarrow> s)
      in map_set context (set_add (fontFamily m) fonts) groups1)"

definition fontFamilyGroups :: "metric list \<Rightarrow> (ctx \<times> string list) list" where
  "fontFamilyGroups metrics = foldl familyGroups_step [] metrics"

definition familyIssue :: "ctx \<Rightarrow> string list \<Rightarrow> issue" where
  "familyIssue context fonts =
     \<lparr> issue_type = ''fontFamily'',
       issue_context = Some context,
       issue_position = None,
       description = ''Multiple font families ('' @ string_of_nat (length fonts)
                       @ '') detected in same context'',
       severity = ''high'',
       detectedFonts = Some fonts,
       details = None \<rparr>"

fun familyIssues_loop :: "(ctx \<times> string list) list \<Rightarrow> issue list \<Rightarrow> issue list" where
  "familyIssues_loop [] acc = acc"
| "familyIssues_loop ((context, fonts) # rest) acc =
     familyIssues_loop rest
       (if length fonts > 2 then acc @ [familyIssue context fonts] else acc)"

definition analyzeFontFamilyConsistency :: "metric list \<Rightarrow> issue list" where
  "analyzeFontFamilyConsistency metrics = familyIssues_loop (fontFamilyGroups metrics) []"

section \<open>Font-size detector\<close>

text \<open>One step of the grouping loop: \<^verbatim>\<open>if (!groups.has(context)) groups.set(context, []);
  groups.get(context).push(metric.fontSize)\<close>.\<close>

definition sizeGroups_step ::
  "(ctx \<times> real list) list \<Rightarrow> metric \<Rightarrow> (ctx \<times> real list) list" where
  "sizeGroups_step groups m =
     (let context = determineContext m;
          groups1 = (if map_of groups context = None then map_set context [] groups else groups);
          sizes = (case map_of groups1 context of None \<Rightarrow> [] | Some s \<Rightarrow> s)
      in map_set context (sizes @ [fontSize m]) groups1)"

definition fontSizeGroups :: "metric list \<Rightarrow> (ctx \<times> real list) list" where
  "fontSizeGroups metrics = foldl sizeGroups_step [] metrics"

text \<open>\<^verbatim>\<open>xs.reduce(f)\<close> with no initial value: the first element starts the fold, and an
  empty array throws.\<close>

definition reduce_no_init :: "('a \<Rightarrow> 'a \<Rightarrow> 'a) \<Rightarrow> 'a list \<Rightarrow> js_error + 'a" where
  "reduce_no_init f xs =
     (case xs of
        [] \<Rightarrow> Inl (TypeError ''Reduce of empty array with no initial value'')
      | x # rest \<Rightarrow> Inr (foldl f x rest))"

definition sizeIssue :: "ctx \<Rightarrow> real \<Rightarrow> real \<Rightarrow> issue" where
  "sizeIssue context mean variance =
     \<lparr> issue_type = ''fontSize'',
       issue_context = Some context,
       issue_position = None,
       description = ''Suspicious font size variations detected'',
       severity = ''medium'',
       detectedFonts = None,
       details = Some (SizeDetails mean variance) \<rparr>"

fun sizeIssues_loop :: "(ctx \<times> real list) list \<Rightarrow> issue list \<Rightarrow> js_error + issue list" where
  "sizeIssues_loop [] acc = Inr acc"
| "sizeIssues_loop ((context, sizes) # rest) acc =
     (case reduce_no_init (\<lambda>a b. a + b) sizes of
        Inl e \<Rightarrow> Inl e
      | Inr sum_sizes \<Rightarrow>
          (let mean = sum_sizes / real (length sizes);
               variance = foldl (\<lambda>a b. a + (b - mean)\<^sup>2) 0 sizes / real (length sizes)
           in sizeIssues_loop rest
                (if variance > 2 then acc @ [sizeIssue context mean variance] else acc)))"

definition analyzeFontSizeConsistency :: "metric list \<Rightarrow> js_error + issue list" where
  "analyzeFontSizeConsistency metrics = sizeIssues_loop (fontSizeGroups metrics) []"

section \<open>Spacing detector\<close>

definition calculateSpacing :: "metric \<Rightarrow> metric \<Rightarrow> real" where
  "calculateSpacing prev current =
     sqrt ((pos_x (run_position current) - (pos_x (run_position prev) + width prev))\<^sup>2
           + (pos_y (run_position current) - pos_y (run_position prev))\<^sup>2)"

definition isSpacingAbnormal :: "real \<Rightarrow> bool" where
  "isSpacingAbnormal spacing =
     (let MIN_NORMAL_SPACING = 0.1; MAX_NORMAL_SPACING = 20
      in spacing < MIN_NORMAL_SPACING \<or> spacing > MAX_NORMAL_SPACING)"

definition spacingIssue :: "metric \<Rightarrow> real \<Rightarrow> issue" where
  "spacingIssue m spacing =
     \<lparr> issue_type = ''spacing'',
       issue_context = None,
       issue_position = Some (run_position m),
       description = ''Abnormal character spacing detected'',
       severity = ''medium'',
       detectedFonts = None,
       details = Some (SpacingDetails spacing) \<rparr>"

text \<open>The \<^verbatim>\<open>forEach\<close> of the spacing detector, with \<^verbatim>\<open>previousMetric\<close> (\<^verbatim>\<open>null\<close>
  at the start) and the array of issues as its state.\<close>

fun spacing_loop :: "metric option \<Rightarrow> metric list \<Rightarrow> issue list \<Rightarrow> issue list" where
  "spacing_loop previousMetric [] acc = acc"
| "spacing_loop previousMetric (m # ms) acc =
     spacing_loop (Some m) ms
       (case previousMetric of
          None \<Rightarrow> acc
        | Some prev \<Rightarrow>
            (let spacing = calculateSpacing prev m
             in if isSpacingAbnormal spacing then acc @ [spacingIssue m spacing] else acc))"

definition analyzeSpacingConsistency :: "metric list \<Rightarrow> issue list" where
  "analyzeSpacingConsistency metrics = spacing_loop None metrics []"

section \<open>The external collaborators\<close>

text \<open>
  The analyzer calls three libraries: pdf.js parses the bytes into text items, pdf-lib loads
  the document, draws on its pages and saves it, and the runtime supplies the clock and the
  base64 encoding.  They are parameters of the model.  A rejected promise or a thrown
  exception of a library is the \<^term>\<open>Inl\<close> of its result.
\<close>

text \<open>The transformation matrix of a text item, an array of six numbers.\<close>

type_synonym transform = "real \<times> real \<times> real \<times> real \<times> real \<times> real"

fun transform_0 :: "transform \<Rightarrow> real" where
  "transform_0 (a, b, c, d, e, f) = a"

fun transform_4 :: "transform \<Rightarrow> real" where
  "transform_4 (a, b, c, d, e, f) = e"

fun transform_5 :: "transform \<Rightarrow> real" where
  "transform_5 (a, b, c, d, e, f) = f"

record text_item =
  item_str :: string
  item_transform :: transform
  item_fontName :: string
  item_width :: real
  item_height :: real

type_synonym color = "real \<times> real \<times> real"

definition rgb :: "real \<Rightarrow> real \<Rightarrow> real \<Rightarrow> color" where
  "rgb r g b = (r, g, b)"

record rectangle =
  rect_x :: real
  rect_y :: real
  rect_width :: real
  rect_height :: real
  rect_color :: color
  rect_opacity :: real

record text_label =
  label_text :: string
  label_x :: real
  label_y :: real
  label_size :: real
  label_color :: "color option"

text \<open>A drawing call on the page with the given index.\<close>

datatype draw_op = DrawRectangle nat rectangle | DrawText nat text_label

type_synonym log = "(string \<times> js_error) list"

text \<open>
  \<open>env_getTextContent\<close>: the text items of every page, in page order
  (\<^verbatim>\<open>getDocument\<close>, \<^verbatim>\<open>getPage\<close>, \<^verbatim>\<open>getTextContent\<close>).
  \<open>env_load\<close>: \<^verbatim>\<open>PDFDocument.load\<close> and \<^verbatim>\<open>getPages\<close>, giving the height of every
  page.  \<open>env_save\<close>: the drawing calls on the loaded document, then \<^verbatim>\<open>save\<close>.
\<close>

record env =
  env_getTextContent :: "bytes \<Rightarrow> js_error + text_item list list"
  env_load :: "bytes \<Rightarrow> js_error + real list"
  env_save :: "bytes \<Rightarrow> draw_op list \<Rightarrow> js_error + bytes"
  env_base64 :: "bytes \<Rightarrow> string"
  env_now :: string

section \<open>Extraction of the runs\<close>

definition item_metric :: "text_item \<Rightarrow> metric" where
  "item_metric item =
     \<lparr> run_text = item_str item,
       fontSize = transform_0 (item_transform item),
       fontFamily = item_fontName item,
       run_position = \<lparr> pos_x = transform_4 (item_transform item),
                         pos_y = transform_5 (item_transform item) \<rparr>,
       width = item_width item,
       height = item_height item \<rparr>"

definition extractFontMetrics :: "env \<Rightarrow> bytes \<Rightarrow> js_error + metric list" where
  "extractFontMetrics e pdfBuffer =
     (case env_getTextContent e pdfBuffer of
        Inl err \<Rightarrow> Inl err
      | Inr pages \<Rightarrow> Inr (concat (map (map item_metric) pages)))"

section \<open>Overlay generators\<close>

text \<open>
  The page of a position, as all four drawing loops compute it: \<open>firstHeight\<close> is
  \<^verbatim>\<open>pages[0].getHeight()\<close>, and the result is the index when the test
  \<^verbatim>\<open>pageIndex >= 0 && pageIndex < pages.length\<close> passes.  With a first page of height 0
  the quotient is an infinity or NaN in JavaScript, for which the test fails; the model
  writes that case out, since division by zero is 0 in HOL.
\<close>

definition pageIndex_of :: "real list \<Rightarrow> real \<Rightarrow> position \<Rightarrow> nat option" where
  "pageIndex_of pages firstHeight pos =
     (if firstHeight = 0 then None
      else
        (let pageIndex = \<lfloor>pos_y pos / firstHeight\<rfloor>
         in if pageIndex \<ge> 0 \<and> pageIndex < int (length pages)
            then Some (nat pageIndex)
            else None))"

text \<open>The \<^verbatim>\<open>drawRectangle\<close> call on the page of that index.\<close>

definition draw_at :: "real list \<Rightarrow> nat \<Rightarrow> position \<Rightarrow> real \<Rightarrow> real \<Rightarrow> color \<Rightarrow> draw_op" where
  "draw_at pages pageIndex pos w h col =
     DrawRectangle pageIndex
       \<lparr> rect_x = pos_x pos,
         rect_y = pages ! pageIndex - pos_y pos,
         rect_width = w,
         rect_height = h,
         rect_color = col,
         rect_opacity = 0.3 \<rparr>"

definition place_rectangle ::
  "real list \<Rightarrow> real \<Rightarrow> position \<Rightarrow> real \<Rightarrow> real \<Rightarrow> color \<Rightarrow> draw_op list" where
  "place_rectangle pages firstHeight pos w h col =
     (case pageIndex_of pages firstHeight pos of
        None \<Rightarrow> []
      | Some pageIndex \<Rightarrow> [draw_at pages pageIndex pos w h col])"

text \<open>\<^verbatim>\<open>metric.width || 10\<close>: the number 0 is falsy.\<close>

definition or_10 :: "real \<Rightarrow> real" where
  "or_10 v = (if v = 0 then 10 else v)"

definition metric_rectangle :: "real list \<Rightarrow> real \<Rightarrow> color \<Rightarrow> metric \<Rightarrow> draw_op list" where
  "metric_rectangle pages firstHeight col m =
     place_rectangle pages firstHeight (run_position m) (or_10 (width m)) (or_10 (height m)) col"

definition colors_fontFamily :: color where
  "colors_fontFamily = rgb 1 0 0"

definition colors_fontSize :: color where
  "colors_fontSize = rgb 1 0.5 0"

definition colors_spacing :: color where
  "colors_spacing = rgb 1 1 0"

definition colors :: "(string \<times> color) list" where
  "colors = [(''fontFamily'', colors_fontFamily), (''fontSize'', colors_fontSize),
             (''spacing'', colors_spacing)]"

text \<open>The runs a font-family issue marks: those of the issue's context whose family is
  among the issue's \<^verbatim>\<open>detectedFonts\<close>.\<close>

definition family_affected :: "issue \<Rightarrow> metric list \<Rightarrow> metric list" where
  "family_affected i metrics =
     filter (\<lambda>m. (case detectedFonts i of
                     None \<Rightarrow> False
                   | Some fonts \<Rightarrow> fontFamily m \<in> set fonts)
                \<and> Some (determineContext m) = issue_context i) metrics"

definition size_affected :: "issue \<Rightarrow> metric list \<Rightarrow> metric list" where
  "size_affected i metrics =
     filter (\<lambda>m. Some (determineContext m) = issue_context i) metrics"

text \<open>The family loop runs only when \<^verbatim>\<open>inconsistencies.fontFamily.issues\<close> is there,
  which it is not on an array.\<close>

definition highlight_family :: "real list \<Rightarrow> real \<Rightarrow> metric list \<Rightarrow> issues_entry \<Rightarrow> draw_op list" where
  "highlight_family pages firstHeight metrics entry =
     (case entry of
        IssueArray xs \<Rightarrow> []
      | IssueObject issues fonts \<Rightarrow>
          concat (map (\<lambda>i. concat (map (metric_rectangle pages firstHeight colors_fontFamily)
                                     (family_affected i metrics))) issues))"

definition highlight_size :: "real list \<Rightarrow> real \<Rightarrow> metric list \<Rightarrow> issue list \<Rightarrow> draw_op list" where
  "highlight_size pages firstHeight metrics issues =
     concat (map (\<lambda>i. concat (map (metric_rectangle pages firstHeight colors_fontSize)
                                (size_affected i metrics))) issues)"

definition highlight_spacing :: "real list \<Rightarrow> real \<Rightarrow> issue list \<Rightarrow> draw_op list" where
  "highlight_spacing pages firstHeight issues =
     concat (map (\<lambda>i. case issue_position i of
                         None \<Rightarrow> []
                       | Some pos \<Rightarrow> place_rectangle pages firstHeight pos 10 10 colors_spacing)
                 issues)"

text \<open>\<^verbatim>\<open>type.charAt(0).toUpperCase() + type.slice(1)\<close> on the ASCII keys of \<open>colors\<close>.\<close>

definition capitalize :: "string \<Rightarrow> string" where
  "capitalize s =
     (case s of
        [] \<Rightarrow> []
      | c # cs \<Rightarrow>
          (let n = (of_char c :: nat)
           in (if 97 \<le> n \<and> n \<le> 122 then char_of (n - 32) else c) # cs))"

definition legend_entry :: "nat \<Rightarrow> color \<Rightarrow> string \<Rightarrow> color option \<Rightarrow> draw_op list" where
  "legend_entry index col label label_col =
     [DrawRectangle 0
        \<lparr> rect_x = 50, rect_y = 50 + real index * 20, rect_width = 15, rect_height = 15,
          rect_color = col, rect_opacity = 0.3 \<rparr>,
      DrawText 0
        \<lparr> label_text = label, label_x = 50 + 25, label_y = 50 + real index * 20 + 4,
          label_size = 10, label_color = label_col \<rparr>]"

definition highlight_legend :: "draw_op list" where
  "highlight_legend =
     DrawText 0 \<lparr> label_text = ''Suspicious Areas Legend:'', label_x = 50, label_y = 50 + 60,
                  label_size = 12, label_color = None \<rparr>
     # concat (map (\<lambda>(index, (type, col)). legend_entry index col (capitalize type @ '' Issues'') None)
                (zip [0..<length colors] colors))"

text \<open>The drawing calls of \<^verbatim>\<open>generateHighlightedPDF\<close>, in the order the function makes
  them.  A document with no page has no \<^verbatim>\<open>pages[0]\<close>: the first call on it throws (the
  message of the \<^verbatim>\<open>TypeError\<close> also names the property read, which is left out here).\<close>

definition highlight_plan ::
  "real list \<Rightarrow> metric list \<Rightarrow> inconsistencies \<Rightarrow> js_error + draw_op list" where
  "highlight_plan pages metrics inc =
     (case pages of
        [] \<Rightarrow> Inl (TypeError ''Cannot read properties of undefined'')
      | firstHeight # others \<Rightarrow>
          Inr (highlight_family pages firstHeight metrics (inc_fontFamily inc)
               @ highlight_size pages firstHeight metrics (inc_fontSize inc)
               @ highlight_spacing pages firstHeight (inc_spacing inc)
               @ highlight_legend))"

text \<open>\<^verbatim>\<open>try { ... } catch (error) { logger.error(label, error); throw new Error(message) }\<close>\<close>

definition try_catch :: "string \<Rightarrow> string \<Rightarrow> js_error + 'a \<Rightarrow> log \<times> (js_error + 'a)" where
  "try_catch label message body =
     (case body of
        Inl err \<Rightarrow> ([(label, err)], Inl (new_Error message))
      | Inr v \<Rightarrow> ([], Inr v))"

definition generateHighlightedPDF ::
  "env \<Rightarrow> bytes \<Rightarrow> metric list \<Rightarrow> inconsistencies \<Rightarrow> log \<times> (js_error + bytes)" where
  "generateHighlightedPDF e originalPdfBuffer metrics inc =
     try_catch ''Error generating highlighted PDF:'' ''Failed to generate highlighted PDF''
       (case env_load e originalPdfBuffer of
          Inl err \<Rightarrow> Inl err
        | Inr pages \<Rightarrow>
            (case highlight_plan pages metrics inc of
               Inl err \<Rightarrow> Inl err
             | Inr ops \<Rightarrow> env_save e originalPdfBuffer ops))"

text \<open>
  The colour table of \<^verbatim>\<open>generateFontTypePDF\<close>: every distinct family, in order of first
  occurrence, with its colour and its number of runs.  The table is a JavaScript object
  keyed by the family name; its entries are read in insertion order, the families being
  names such as \<^verbatim>\<open>g_d0_f1\<close> and not array indices.
\<close>

definition fontColor :: "nat \<Rightarrow> nat \<Rightarrow> color" where
  "fontColor index n =
     (let hue = (real index * 360 / real n) / 360
      in rgb (sin (hue * pi * 2) * 0.5 + 0.5)
             (sin ((hue + 1 / 3) * pi * 2) * 0.5 + 0.5)
             (sin ((hue + 2 / 3) * pi * 2) * 0.5 + 0.5))"

definition fontColors :: "metric list \<Rightarrow> (string \<times> (color \<times> nat)) list" where
  "fontColors metrics =
     (let uniqueFonts = unique (map fontFamily metrics)
      in map (\<lambda>(index, font).
                (font, (fontColor index (length uniqueFonts),
                        length (filter (\<lambda>m. fontFamily m = font) metrics))))
             (zip [0..<length uniqueFonts] uniqueFonts))"

text \<open>The loop over the runs.  A run on no page is passed over; for a run on a page the
  colour of its family is looked up, and a family missing from the table would throw on
  \<^verbatim>\<open>fontColors[metric.fontFamily].color\<close>.\<close>

fun fontType_rects ::
  "real list \<Rightarrow> real \<Rightarrow> (string \<times> (color \<times> nat)) list \<Rightarrow> metric list \<Rightarrow> js_error + draw_op list" where
  "fontType_rects pages firstHeight table [] = Inr []"
| "fontType_rects pages firstHeight table (m # ms) =
     (case (case pageIndex_of pages firstHeight (run_position m) of
              None \<Rightarrow> Inr []
            | Some pageIndex \<Rightarrow>
                (case map_of table (fontFamily m) of
                   None \<Rightarrow> Inl (TypeError ''Cannot read properties of undefined'')
                 | Some entry \<Rightarrow>
                     Inr [draw_at pages pageIndex (run_position m)
                            (or_10 (width m)) (or_10 (height m)) (fst entry)])) of
        Inl err \<Rightarrow> Inl err
      | Inr ops \<Rightarrow>
          (case fontType_rects pages firstHeight table ms of
             Inl err \<Rightarrow> Inl err
           | Inr rest \<Rightarrow> Inr (ops @ rest)))"

definition fontType_legend :: "(string \<times> (color \<times> nat)) list \<Rightarrow> draw_op list" where
  "fontType_legend table =
     DrawText 0 \<lparr> label_text = ''Font Types Legend:'', label_x = 50,
                  label_y = 50 + real (length table) * 20 + 40,
                  label_size = 12, label_color = Some (rgb 0 0 0) \<rparr>
     # concat (map (\<lambda>(index, (fontName, (col, count))).
                      legend_entry index col
                        (fontName @ '' ('' @ string_of_nat count @ '' occurrences)'')
                        (Some (rgb 0 0 0)))
                (zip [0..<length table] table))"

definition fontType_plan :: "real list \<Rightarrow> metric list \<Rightarrow> js_error + draw_op list" where
  "fontType_plan pages metrics =
     (let table = fontColors metrics
      in case pages of
           [] \<Rightarrow> Inl (TypeError ''Cannot read properties of undefined'')
         | firstHeight # others \<Rightarrow>
             (case fontType_rects pages firstHeight table metrics of
                Inl err \<Rightarrow> Inl err
              | Inr ops \<Rightarrow> Inr (ops @ fontType_legend table)))"

definition generateFontTypePDF :: "env \<Rightarrow> bytes \<Rightarrow> metric list \<Rightarrow> log \<times> (js_error + string)" where
  "generateFontTypePDF e originalPdfBuffer metrics =
     try_catch ''Error generating font type PDF:'' ''Failed to generate font type PDF''
       (case env_load e originalPdfBuffer of
          Inl err \<Rightarrow> Inl err
        | Inr pages \<Rightarrow>
            (case fontType_plan pages metrics of
               Inl err \<Rightarrow> Inl err
             | Inr ops \<Rightarrow>
                 (case env_save e originalPdfBuffer ops of
                    Inl err \<Rightarrow> Inl err
                  | Inr saved \<Rightarrow> Inr (env_base64 e saved))))"

section \<open>The analysis\<close>

record analysis =
  analysis_report :: report
  highlightedPdf :: string
  fontTypePdf :: string

text \<open>The \<^verbatim>\<open>inconsistencies\<close> object \<^verbatim>\<open>analyzePDF\<close> builds from the runs: the three
  detector results, the first wrapped together with the inventory of the families.\<close>

definition detect :: "metric list \<Rightarrow> js_error + inconsistencies" where
  "detect fontMetrics =
     (case analyzeFontSizeConsistency fontMetrics of
        Inl err \<Rightarrow> Inl err
      | Inr sizeIssues \<Rightarrow>
          (let uniqueFontFamilies = unique (map fontFamily fontMetrics)
           in Inr \<lparr> inc_fontFamily =
                       IssueObject (analyzeFontFamilyConsistency fontMetrics)
                         (map (\<lambda>font. \<lparr> font_name = font,
                                         occurrences =
                                           length (filter (\<lambda>m. fontFamily m = font) fontMetrics) \<rparr>)
                              uniqueFontFamilies),
                     inc_fontSize = sizeIssues,
                     inc_spacing = analyzeSpacingConsistency fontMetrics \<rparr>))"

text \<open>The body of the \<^verbatim>\<open>try\<close> of \<^verbatim>\<open>analyzePDF\<close>, with what the two generators logged.\<close>

definition analyzePDF_try :: "env \<Rightarrow> bytes \<Rightarrow> log \<times> (js_error + analysis)" where
  "analyzePDF_try e pdfBuffer =
     (case extractFontMetrics e pdfBuffer of
        Inl err \<Rightarrow> ([], Inl err)
      | Inr fontMetrics \<Rightarrow>
          (case detect fontMetrics of
             Inl err \<Rightarrow> ([], Inl err)
           | Inr inc \<Rightarrow>
               (case generateReport (env_now e) inc of
                  Inl err \<Rightarrow> ([], Inl err)
                | Inr rep \<Rightarrow>
                    (case generateHighlightedPDF e pdfBuffer fontMetrics inc of
                       (log1, Inl err) \<Rightarrow> (log1, Inl err)
                     | (log1, Inr highlighted) \<Rightarrow>
                         (case generateFontTypePDF e pdfBuffer fontMetrics of
                            (log2, Inl err) \<Rightarrow> (log1 @ log2, Inl err)
                          | (log2, Inr fontType) \<Rightarrow>
                              (log1 @ log2,
                               Inr \<lparr> analysis_report = rep,
                                     highlightedPdf = env_base64 e highlighted,
                                     fontTypePdf = fontType \<rparr>))))))"

definition analyzePDF :: "env \<Rightarrow> bytes \<Rightarrow> log \<times> (js_error + analysis)" where
  "analyzePDF e pdfBuffer =
     (case analyzePDF_try e pdfBuffer of
        (logged, Inl err) \<Rightarrow>
          (logged @ [(''Error analyzing PDF:'', err)], Inl (new_Error ''Failed to analyze PDF document''))
      | (logged, Inr result) \<Rightarrow> (logged, Inr result))"

section \<open>The inputs of the repository's tests\<close>

text \<open>The issues and the \<^verbatim>\<open>mockInconsistencies\<close> of \<^verbatim>\<open>__tests__/DocumentAnalyzer.test.js\<close>:
  three arrays of one issue each.\<close>

definition mockIssue :: "string \<Rightarrow> string \<Rightarrow> issue" where
  "mockIssue type sev =
     \<lparr> issue_type = type, issue_context = None, issue_position = None, description = ''Test'',
       severity = sev, detectedFonts = None, details = None \<rparr>"

definition mockInconsistencies :: inconsistencies where
  "mockInconsistencies =
     \<lparr> inc_fontFamily = IssueArray [mockIssue ''fontFamily'' ''high''],
       inc_fontSize = [mockIssue ''fontSize'' ''medium''],
       inc_spacing = [mockIssue ''spacing'' ''low''] \<rparr>"

definition mockMetric :: "string \<Rightarrow> real \<Rightarrow> real \<Rightarrow> metric" where
  "mockMetric family fsize x =
     \<lparr> run_text = ''Test'', fontSize = fsize, fontFamily = family,
       run_position = \<lparr> pos_x = x, pos_y = 0 \<rparr>, width = 10, height = 10 \<rparr>"

definition mockFamilyMetrics :: "metric list" where
  "mockFamilyMetrics =
     [mockMetric ''Arial'' 12 0, mockMetric ''Times'' 12 20, mockMetric ''Helvetica'' 12 40]"

definition mockSizeMetrics :: "metric list" where
  "mockSizeMetrics =
     [mockMetric ''Arial'' 12 0, mockMetric ''Arial'' 12.5 20, mockMetric ''Arial'' 13 40]"

definition mockSpacingMetrics :: "metric list" where
  "mockSpacingMetrics =
     [mockMetric ''Arial'' 12 0, mockMetric ''Arial'' 12 50, mockMetric ''Arial'' 12 60]"

section \<open>The specification's notions\<close>





definition clamp :: "real \<Rightarrow> real \<Rightarrow> real \<Rightarrow> real" where
  "clamp v lo hi = (if v < lo then lo else if v > hi then hi else v)"

text \<open>The runs of a context, in input order.\<close>

definition runs_of :: "ctx \<Rightarrow> metric list \<Rightarrow> metric list" where
  "runs_of c ms = filter (\<lambda>m. determineContext m = c) ms"

text \<open>The issues among \<open>xs\<close> that carry the context \<open>c\<close>.\<close>

definition issues_of_context :: "ctx \<Rightarrow> issue list \<Rightarrow> issue list" where
  "issues_of_context c xs = filter (\<lambda>i. issue_context i = Some c) xs"

definition population_mean :: "real list \<Rightarrow> real" where
  "population_mean xs = sum_list xs / real (length xs)"

definition population_variance :: "real list \<Rightarrow> real" where
  "population_variance xs =
     sum_list (map (\<lambda>x. (x - population_mean xs)\<^sup>2) xs) / real (length xs)"

text \<open>What one group of a detector's map contributes to the result.\<close>

definition familyIssues_of :: "ctx \<times> string list \<Rightarrow> issue list" where
  "familyIssues_of g = (if length (snd g) > 2 then [familyIssue (fst g) (snd g)] else [])"

definition sizeIssues_of :: "ctx \<times> real list \<Rightarrow> issue list" where
  "sizeIssues_of g =
     (if population_variance (snd g) > 2
      then [sizeIssue (fst g) (population_mean (snd g)) (population_variance (snd g))]
      else [])"

text \<open>The Euclidean distance of two points, the right edge of a run and its origin.\<close>

definition euclidean_distance :: "real \<times> real \<Rightarrow> real \<times> real \<Rightarrow> real" where
  "euclidean_distance p q = sqrt ((fst p - fst q)\<^sup>2 + (snd p - snd q)\<^sup>2)"

definition right_edge :: "metric \<Rightarrow> real \<times> real" where
  "right_edge m = (pos_x (run_position m) + width m, pos_y (run_position m))"

definition origin :: "metric \<Rightarrow> real \<times> real" where
  "origin m = (pos_x (run_position m), pos_y (run_position m))"

text \<open>What a pair of a run and its successor contributes to the spacing issues: nothing
  when the spacing is in the closed interval from 0.1 to 20, and otherwise one issue of
  medium severity with the spacing and the position of the successor.\<close>

definition spacingIssues_of :: "metric \<times> metric \<Rightarrow> issue list" where
  "spacingIssues_of pair =
     (let spacing = euclidean_distance (right_edge (fst pair)) (origin (snd pair))
      in if 0.1 \<le> spacing \<and> spacing \<le> 20 then []
         else [\<lparr> issue_type = ''spacing'',
                 issue_context = None,
                 issue_position = Some (run_position (snd pair)),
                 description = ''Abnormal character spacing detected'',
                 severity = ''medium'',
                 detectedFonts = None,
                 details = Some (SpacingDetails spacing) \<rparr>])"

text \<open>Three runs of sizes 10, 14 and 24: two in the body, with a variance of 4, and one
  header.\<close>

definition wideSizeMetrics :: "metric list" where
  "wideSizeMetrics =
     [mockMetric ''Arial'' 10 0, mockMetric ''Arial'' 14 20, mockMetric ''Arial'' 24 40]"

text \<open>An error carries a cause when it is the cause or has it somewhere along its chain of
  \<^verbatim>\<open>cause\<close> properties.\<close>

fun carries_cause :: "js_error \<Rightarrow> js_error \<Rightarrow> bool" where
  "carries_cause cause (JsError n msg inner) =
     (JsError n msg inner = cause
      \<or> (case inner of None \<Rightarrow> False | Some err \<Rightarrow> carries_cause cause err))"

text \<open>The computed page index \<open>\<lfloor>y / firstHeight\<rfloor>\<close> of a position is the index of a page.\<close>

definition on_page :: "real list \<Rightarrow> real \<Rightarrow> position \<Rightarrow> bool" where
  "on_page pages firstHeight pos =
     (0 \<le> \<lfloor>pos_y pos / firstHeight\<rfloor> \<and> \<lfloor>pos_y pos / firstHeight\<rfloor> < int (length pages))"

text \<open>A drawing call is the rectangle of a position with the y axis flipped: on a page of
  the document, at the x of the position and at the height of that page minus the y of the
  position.\<close>

definition flipped_rectangle :: "real list \<Rightarrow> position \<Rightarrow> draw_op \<Rightarrow> bool" where
  "flipped_rectangle pages pos op =
     (case op of
        DrawRectangle p r \<Rightarrow>
          p < length pages \<and> rect_x r = pos_x pos \<and> rect_y r = pages ! p - pos_y pos
      | DrawText p l \<Rightarrow> False)"

section \<open>Further inputs\<close>

text \<open>The \<^verbatim>\<open>inconsistencies\<close> of a document with no run.\<close>

definition noIssues :: inconsistencies where
  "noIssues = \<lparr> inc_fontFamily = IssueObject [] [], inc_fontSize = [], inc_spacing = [] \<rparr>"

text \<open>A one-page document with no text, whose writer rejects every drawing plan.\<close>

definition geometryError :: js_error where
  "geometryError = JsError ''Error'' ''malformed geometry'' None"

definition rejectingWriter :: env where
  "rejectingWriter =
     \<lparr> env_getTextContent = (\<lambda>b. Inr [[]]),
       env_load = (\<lambda>b. Inr [800]),
       env_save = (\<lambda>b ops. Inl geometryError),
       env_base64 = (\<lambda>b. []),
       env_now = ''2024-01-01T00:00:00.000Z'' \<rparr>"

text \<open>The same document with a writer that rejects every plan but the empty one.\<close>

definition pickyWriter :: env where
  "pickyWriter =
     \<lparr> env_getTextContent = (\<lambda>b. Inr [[]]),
       env_load = (\<lambda>b. Inr [800]),
       env_save = (\<lambda>b ops. if ops = [] then Inr b else Inl geometryError),
       env_base64 = (\<lambda>b. []),
       env_now = ''2024-01-01T00:00:00.000Z'' \<rparr>"

text \<open>The same document with a writer that accepts every plan but those of a single
  drawing call.\<close>

definition lastPlanRejected :: env where
  "lastPlanRejected =
     \<lparr> env_getTextContent = (\<lambda>b. Inr [[]]),
       env_load = (\<lambda>b. Inr [800]),
       env_save = (\<lambda>b ops. if length ops = 1 then Inl geometryError else Inr b),
       env_base64 = (\<lambda>b. []),
       env_now = ''2024-01-01T00:00:00.000Z'' \<rparr>"

text \<open>A one-page document of height 800 with one text item at y = 100, and a run at
  y = 2000 and one at y = -5, which are on no page of it.\<close>

definition onPageItem :: text_item where
  "onPageItem = \<lparr> item_str = ''Test'', item_transform = (12, 0, 0, 12, 10, 100),
                   item_fontName = ''Arial'', item_width = 10, item_height = 10 \<rparr>"

definition onPageRun :: metric where
  "onPageRun = item_metric onPageItem"

definition onePageDocument :: env where
  "onePageDocument =
     \<lparr> env_getTextContent = (\<lambda>b. Inr [[onPageItem]]),
       env_load = (\<lambda>b. Inr [800]),
       env_save = (\<lambda>b ops. Inr b),
       env_base64 = (\<lambda>b. []),
       env_now = ''2024-01-01T00:00:00.000Z'' \<rparr>"

definition offPageRun :: metric where
  "offPageRun = \<lparr> run_text = ''Test'', fontSize = 12, fontFamily = ''Arial'',
                   run_position = \<lparr> pos_x = 10, pos_y = 2000 \<rparr>, width = 10, height = 10 \<rparr>"

definition belowPageRun :: metric where
  "belowPageRun = \<lparr> run_text = ''Test'', fontSize = 12, fontFamily = ''Arial'',
                     run_position = \<lparr> pos_x = 10, pos_y = - 5 \<rparr>, width = 10, height = 10 \<rparr>"

section \<open>Severity score\<close>

lemma foldl_add_sum_list: "foldl (\<lambda>s i. s + f i) a xs = a + sum_list (map f xs)" for a :: real
  by (induction xs arbitrary: a) simp_all




lemma calculateSeverityScore_unfold:
  "calculateSeverityScore inc =
     issueScore (issuesList (inc_fontFamily inc)) * 0.4
     + issueScore (inc_fontSize inc) * 0.3 + issueScore (inc_spacing inc) * 0.3"
  by (simp add: calculateSeverityScore_def entries_def weights_def)



section \<open>Maps and sets in insertion order: facts\<close>

lemma map_of_map_set: "map_of (map_set k v m) = (map_of m)(k \<mapsto> v)"
  by (induction m) (auto simp: fun_eq_iff)

lemma keys_map_set: "fst ` set (map_set k v m) = insert k (fst ` set m)"
proof -
  have "fst ` set (map_set k v m) = dom (map_of (map_set k v m))"
    by (rule dom_map_of_conv_image_fst [symmetric])
  also have "\<dots> = insert k (dom (map_of m))"
    by (simp only: map_of_map_set dom_fun_upd) simp
  also have "\<dots> = insert k (fst ` set m)"
    by (simp only: dom_map_of_conv_image_fst)
  finally show ?thesis .
qed

lemma distinct_map_set: "distinct (map fst m) \<Longrightarrow> distinct (map fst (map_set k v m))"
  by (induction m) (auto simp: keys_map_set)

lemma unique_snoc: "unique (xs @ [x]) = set_add x (unique xs)"
  by (simp add: unique_def)

lemma unique_Nil: "unique [] = []"
  by (simp add: unique_def)

lemma set_unique: "set (unique xs) = set xs"
  by (induction xs rule: rev_induct) (auto simp: unique_snoc unique_Nil set_add_def)

lemma distinct_unique: "distinct (unique xs)"
  by (induction xs rule: rev_induct) (auto simp: unique_snoc unique_Nil set_add_def)

lemma length_unique: "length (unique xs) = card (set xs)"
  using distinct_card [OF distinct_unique, of xs] by (simp add: set_unique)

section \<open>The groups of the detectors\<close>

lemma runs_of_snoc:
  "runs_of c (ms @ [m]) = (if determineContext m = c then runs_of c ms @ [m] else runs_of c ms)"
  by (simp add: runs_of_def)

lemma fontFamilyGroups_snoc:
  "fontFamilyGroups (ms @ [m]) = familyGroups_step (fontFamilyGroups ms) m"
  by (simp add: fontFamilyGroups_def)

lemma distinct_fontFamilyGroups: "distinct (map fst (fontFamilyGroups ms))"
proof (induction ms rule: rev_induct)
  case Nil
  then show ?case by (simp add: fontFamilyGroups_def)
next
  case (snoc m ms)
  then show ?case
    by (simp add: fontFamilyGroups_snoc familyGroups_step_def Let_def distinct_map_set)
qed

text \<open>The map of the font-family detector holds, for every context that has a run, the
  distinct families of the context's runs.\<close>

lemma map_of_fontFamilyGroups:
  "map_of (fontFamilyGroups ms) c =
     (if runs_of c ms = [] then None else Some (unique (map fontFamily (runs_of c ms))))"
proof (induction ms rule: rev_induct)
  case Nil
  then show ?case by (simp add: fontFamilyGroups_def runs_of_def)
next
  case (snoc m ms)
  show ?case
  proof (cases "determineContext m = c")
    case True
    then show ?thesis
      by (simp add: fontFamilyGroups_snoc familyGroups_step_def Let_def map_of_map_set
            runs_of_snoc unique_snoc unique_Nil snoc.IH)
  next
    case False
    then show ?thesis
      by (simp add: fontFamilyGroups_snoc familyGroups_step_def Let_def map_of_map_set
            runs_of_snoc snoc.IH)
  qed
qed

lemma fontSizeGroups_snoc:
  "fontSizeGroups (ms @ [m]) = sizeGroups_step (fontSizeGroups ms) m"
  by (simp add: fontSizeGroups_def)

lemma distinct_fontSizeGroups: "distinct (map fst (fontSizeGroups ms))"
proof (induction ms rule: rev_induct)
  case Nil
  then show ?case by (simp add: fontSizeGroups_def)
next
  case (snoc m ms)
  then show ?case
    by (simp add: fontSizeGroups_snoc sizeGroups_step_def Let_def distinct_map_set)
qed

text \<open>The map of the font-size detector holds, for every context that has a run, the
  sizes of the context's runs in input order.\<close>

lemma map_of_fontSizeGroups:
  "map_of (fontSizeGroups ms) c =
     (if runs_of c ms = [] then None else Some (map fontSize (runs_of c ms)))"
proof (induction ms rule: rev_induct)
  case Nil
  then show ?case by (simp add: fontSizeGroups_def runs_of_def)
next
  case (snoc m ms)
  show ?case
  proof (cases "determineContext m = c")
    case True
    then show ?thesis
      by (simp add: fontSizeGroups_snoc sizeGroups_step_def Let_def map_of_map_set runs_of_snoc
            snoc.IH)
  next
    case False
    then show ?thesis
      by (simp add: fontSizeGroups_snoc sizeGroups_step_def Let_def map_of_map_set
            runs_of_snoc snoc.IH)
  qed
qed

lemma fontSizeGroups_nonempty:
  assumes "(c, sizes) \<in> set (fontSizeGroups ms)"
  shows "sizes \<noteq> []"
proof -
  from assms distinct_fontSizeGroups have "map_of (fontSizeGroups ms) c = Some sizes"
    by (simp add: map_of_eq_Some_iff)
  then show ?thesis
    by (auto simp add: map_of_fontSizeGroups split: if_splits)
qed

section \<open>The issue loops\<close>

lemma familyIssues_loop_eq:
  "familyIssues_loop groups acc = acc @ concat (map familyIssues_of groups)"
  by (induction groups acc rule: familyIssues_loop.induct) (simp_all add: familyIssues_of_def)

lemma analyzeFontFamilyConsistency_eq:
  "analyzeFontFamilyConsistency ms = concat (map familyIssues_of (fontFamilyGroups ms))"
  by (simp add: analyzeFontFamilyConsistency_def familyIssues_loop_eq)

lemma foldl_plus_sum_list: "foldl (\<lambda>a b. a + b) x xs = x + sum_list xs" for x :: real
  by (induction xs arbitrary: x) simp_all

lemma reduce_no_init_sum:
  "sizes \<noteq> [] \<Longrightarrow> reduce_no_init (\<lambda>a b. a + b) sizes = Inr (sum_list sizes)"
  for sizes :: "real list"
  by (cases sizes) (simp_all add: reduce_no_init_def foldl_plus_sum_list)

lemma sizeIssues_loop_eq:
  "list_all (\<lambda>g. snd g \<noteq> []) groups \<Longrightarrow>
   sizeIssues_loop groups acc = Inr (acc @ concat (map sizeIssues_of groups))"
proof (induction groups acc rule: sizeIssues_loop.induct)
  case (1 acc)
  then show ?case by simp
next
  case (2 cx sizes rest acc)
  have ne: "sizes \<noteq> []" using "2.prems" by simp
  have var: "foldl (\<lambda>a b. a + (b - sum_list sizes / real (length sizes))\<^sup>2) 0 sizes
               / real (length sizes)
             = population_variance sizes"
    by (simp add: foldl_add_sum_list population_variance_def population_mean_def)
  have rest: "list_all (\<lambda>g. snd g \<noteq> []) rest" using "2.prems" by simp
  show ?case
    using "2.IH" [OF reduce_no_init_sum [OF ne] refl refl rest]
    by (simp add: reduce_no_init_sum [OF ne] var Let_def sizeIssues_of_def population_mean_def)
qed

text \<open>No group is empty, so the \<^verbatim>\<open>reduce\<close> of the font-size detector never throws.\<close>

lemma analyzeFontSizeConsistency_eq:
  "analyzeFontSizeConsistency ms = Inr (concat (map sizeIssues_of (fontSizeGroups ms)))"
proof -
  have "list_all (\<lambda>g. snd g \<noteq> []) (fontSizeGroups ms)"
    unfolding list_all_iff using fontSizeGroups_nonempty by force
  from sizeIssues_loop_eq [OF this, of "[]"] show ?thesis
    by (simp add: analyzeFontSizeConsistency_def)
qed

text \<open>When every group contributes issues of its own context only, the issues of a context
  are the contribution of that context's group.\<close>

lemma context_filter_groups:
  assumes own: "\<And>g i. i \<in> set (F g) \<Longrightarrow> issue_context i = Some (fst g)"
    and "distinct (map fst groups)"
  shows "issues_of_context c (concat (map F groups))
           = (case map_of groups c of None \<Rightarrow> [] | Some v \<Rightarrow> F (c, v))"
  using assms(2)
proof (induction groups)
  case Nil
  then show ?case by (simp add: issues_of_context_def)
next
  case (Cons g groups)
  have split: "issues_of_context c (concat (map F (g # groups)))
                 = issues_of_context c (F g) @ issues_of_context c (concat (map F groups))"
    by (simp add: issues_of_context_def)
  show ?case
  proof (cases "fst g = c")
    case True
    have "c \<notin> fst ` set groups" using Cons.prems True by auto
    then have "map_of groups c = None" by (simp add: map_of_eq_None_iff)
    with Cons have rest: "issues_of_context c (concat (map F groups)) = []" by simp
    have "issues_of_context c (F g) = F g"
      unfolding issues_of_context_def using own [of _ g] True by (simp add: filter_id_conv)
    moreover have "g = (c, snd g)" using True by (cases g) simp
    ultimately show ?thesis using rest split True
      by (metis append_Nil2 map_of_Cons_code(2) option.simps(5))
  next
    case False
    have "issues_of_context c (F g) = []"
      unfolding issues_of_context_def using own [of _ g] False by (auto simp: filter_empty_conv)
    moreover have "map_of (g # groups) c = map_of groups c" using False by (cases g) simp
    ultimately show ?thesis using Cons split by simp
  qed
qed

lemma familyIssues_of_context:
  "i \<in> set (familyIssues_of g) \<Longrightarrow> issue_context i = Some (fst g)"
  by (cases "length (snd g) > 2") (simp_all add: familyIssues_of_def familyIssue_def)

lemma sizeIssues_of_context:
  "i \<in> set (sizeIssues_of g) \<Longrightarrow> issue_context i = Some (fst g)"
  by (cases "population_variance (snd g) > 2") (simp_all add: sizeIssues_of_def sizeIssue_def)

lemma family_found:
  "issues_of_context c (analyzeFontFamilyConsistency ms)
     = (if card (set (map fontFamily (runs_of c ms))) > 2
        then [familyIssue c (unique (map fontFamily (runs_of c ms)))] else [])"
proof -
  have empty: "runs_of c ms = [] \<Longrightarrow> card (set (map fontFamily (runs_of c ms))) = 0" by simp
  have "issues_of_context c (concat (map familyIssues_of (fontFamilyGroups ms)))
          = (case map_of (fontFamilyGroups ms) c of None \<Rightarrow> [] | Some v \<Rightarrow> familyIssues_of (c, v))"
    by (rule context_filter_groups [OF familyIssues_of_context distinct_fontFamilyGroups])
  then show ?thesis
    unfolding analyzeFontFamilyConsistency_eq
    using empty
    by (simp add: map_of_fontFamilyGroups familyIssues_of_def length_unique)
qed

lemma size_found:
  "issues_of_context c (concat (map sizeIssues_of (fontSizeGroups ms)))
     = (if runs_of c ms \<noteq> [] \<and> population_variance (map fontSize (runs_of c ms)) > 2
        then [sizeIssue c (population_mean (map fontSize (runs_of c ms)))
                          (population_variance (map fontSize (runs_of c ms)))]
        else [])"
proof -
  have "issues_of_context c (concat (map sizeIssues_of (fontSizeGroups ms)))
          = (case map_of (fontSizeGroups ms) c of None \<Rightarrow> [] | Some v \<Rightarrow> sizeIssues_of (c, v))"
    by (rule context_filter_groups [OF sizeIssues_of_context distinct_fontSizeGroups])
  then show ?thesis
    by (simp add: map_of_fontSizeGroups sizeIssues_of_def)
qed

section \<open>At most one group for each of the three contexts\<close>

lemma UNIV_ctx: "(UNIV :: ctx set) = {Header, Subheader, Body}"
  by (auto intro: ctx.exhaust)

lemma distinct_ctx_length: "distinct (cs :: ctx list) \<Longrightarrow> length cs \<le> 3"
proof -
  assume d: "distinct cs"
  have fin: "finite (UNIV :: ctx set)" by (subst UNIV_ctx) simp
  have "card (set cs) \<le> card (UNIV :: ctx set)"
    by (rule card_mono [OF fin subset_UNIV])
  also have "card (UNIV :: ctx set) = 3" by (subst UNIV_ctx) simp
  finally show ?thesis using d by (simp add: distinct_card)
qed

lemma length_concat_le:
  "(\<And>g. length (F g) \<le> 1) \<Longrightarrow> length (concat (map F groups)) \<le> length groups"
proof (induction groups)
  case Nil
  then show ?case by simp
next
  case (Cons g groups)
  then have "length (F g) \<le> 1" "length (concat (map F groups)) \<le> length groups" by simp_all
  then show ?case by simp
qed

lemma family_at_most_3: "length (concat (map familyIssues_of (fontFamilyGroups ms))) \<le> 3"
proof -
  have "length (concat (map familyIssues_of (fontFamilyGroups ms))) \<le> length (fontFamilyGroups ms)"
    by (rule length_concat_le) (simp add: familyIssues_of_def)
  also have "\<dots> = length (map fst (fontFamilyGroups ms))" by simp
  also have "\<dots> \<le> 3" by (rule distinct_ctx_length [OF distinct_fontFamilyGroups])
  finally show ?thesis .
qed

lemma size_at_most_3: "length (concat (map sizeIssues_of (fontSizeGroups ms))) \<le> 3"
proof -
  have "length (concat (map sizeIssues_of (fontSizeGroups ms))) \<le> length (fontSizeGroups ms)"
    by (rule length_concat_le) (simp add: sizeIssues_of_def)
  also have "\<dots> = length (map fst (fontSizeGroups ms))" by simp
  also have "\<dots> \<le> 3" by (rule distinct_ctx_length [OF distinct_fontSizeGroups])
  finally show ?thesis .
qed

section \<open>Mean and variance\<close>

lemma sum_list_const: "(\<And>x. x \<in> set xs \<Longrightarrow> x = s) \<Longrightarrow> sum_list xs = real (length xs) * s"
  by (induction xs) (simp_all add: algebra_simps)

lemma sum_list_zero: "(\<And>x. x \<in> set xs \<Longrightarrow> f x = 0) \<Longrightarrow> sum_list (map f xs) = 0"
  for f :: "real \<Rightarrow> real"
  by (induction xs) simp_all

lemma population_variance_const:
  assumes "\<And>x. x \<in> set xs \<Longrightarrow> x = s"
  shows "population_variance xs = 0"
proof (cases "xs = []")
  case True
  then show ?thesis by (simp add: population_variance_def)
next
  case False
  then have mean: "population_mean xs = s"
    by (simp add: population_mean_def sum_list_const [OF assms])
  have "sum_list (map (\<lambda>x. (x - population_mean xs)\<^sup>2) xs) = 0"
    by (rule sum_list_zero) (simp add: mean assms)
  then show ?thesis by (simp add: population_variance_def)
qed

section \<open>Font-family detector: the issues of a context\<close>

text \<open>
  Claim C2.  The context of a run depends on its font size alone, and every issue of the
  font-family detector carries a context.  For every run list and every context: when the
  runs of the context have at most 2 distinct families, no issue carries the context; when
  they have 3 or more, exactly one issue carries it, of high severity, and its
  \<^verbatim>\<open>detectedFonts\<close> are the distinct families of the context's runs, each once.
\<close>

theorem analyzeFontFamilyConsistency_per_context:
  "(\<forall>m m'. fontSize m = fontSize m' \<longrightarrow> determineContext m = determineContext m')
   \<and> (\<forall>i \<in> set (analyzeFontFamilyConsistency ms). \<exists>c. issue_context i = Some c)
   \<and> (\<forall>c. let families = set (map fontFamily (runs_of c ms));
               found = issues_of_context c (analyzeFontFamilyConsistency ms)
           in if card families \<le> 2 then found = []
              else (\<exists>i fonts. found = [i] \<and> issue_type i = ''fontFamily'' \<and> severity i = ''high''
                      \<and> detectedFonts i = Some fonts \<and> distinct fonts \<and> set fonts = families))"
proof (intro conjI allI impI ballI)
  fix m m' :: metric
  assume "fontSize m = fontSize m'"
  then show "determineContext m = determineContext m'" by (simp add: determineContext_def)
next
  fix i
  assume "i \<in> set (analyzeFontFamilyConsistency ms)"
  then obtain g where "i \<in> set (familyIssues_of g)"
    by (auto simp: analyzeFontFamilyConsistency_eq)
  then show "\<exists>c. issue_context i = Some c" by (auto dest: familyIssues_of_context)
next
  fix c
  show "let families = set (map fontFamily (runs_of c ms));
            found = issues_of_context c (analyzeFontFamilyConsistency ms)
        in if card families \<le> 2 then found = []
           else (\<exists>i fonts. found = [i] \<and> issue_type i = ''fontFamily'' \<and> severity i = ''high''
                   \<and> detectedFonts i = Some fonts \<and> distinct fonts \<and> set fonts = families)"
    unfolding Let_def family_found
    by (simp add: familyIssue_def distinct_unique set_unique)
qed

lemma mock_family_runs:
  "map fontFamily (runs_of Body mockFamilyMetrics) = [''Arial'', ''Times'', ''Helvetica'']"
  by (simp add: runs_of_def mockFamilyMetrics_def mockMetric_def determineContext_def)

theorem analyzeFontFamilyConsistency_per_context_witness:
  "fontSize (mockMetric ''Arial'' 12 0) = fontSize (mockMetric ''Times'' 12 20)
   \<and> determineContext (mockMetric ''Arial'' 12 0) = determineContext (mockMetric ''Times'' 12 20)
   \<and> card (set (map fontFamily (runs_of Body mockFamilyMetrics))) = 3
   \<and> (\<exists>i fonts. issues_of_context Body (analyzeFontFamilyConsistency mockFamilyMetrics) = [i]
         \<and> issue_context i = Some Body \<and> severity i = ''high''
         \<and> detectedFonts i = Some fonts \<and> set fonts = {''Arial'', ''Times'', ''Helvetica''})"
proof -
  note C = analyzeFontFamilyConsistency_per_context [of mockFamilyMetrics]
  have eq: "fontSize (mockMetric ''Arial'' 12 0) = fontSize (mockMetric ''Times'' 12 20)"
    by (simp add: mockMetric_def)
  with C have ctx: "determineContext (mockMetric ''Arial'' 12 0) = determineContext (mockMetric ''Times'' 12 20)"
    by blast
  have card3: "card (set (map fontFamily (runs_of Body mockFamilyMetrics))) = 3"
    by (simp add: mock_family_runs)
  from C have "let families = set (map fontFamily (runs_of Body mockFamilyMetrics));
               found = issues_of_context Body (analyzeFontFamilyConsistency mockFamilyMetrics)
           in if card families \<le> 2 then found = []
              else (\<exists>i fonts. found = [i] \<and> issue_type i = ''fontFamily'' \<and> severity i = ''high''
                      \<and> detectedFonts i = Some fonts \<and> distinct fonts \<and> set fonts = families)"
    by blast
  with card3 obtain i fonts where
    i: "issues_of_context Body (analyzeFontFamilyConsistency mockFamilyMetrics) = [i]"
       "severity i = ''high''" "detectedFonts i = Some fonts"
       "set fonts = set (map fontFamily (runs_of Body mockFamilyMetrics))"
    by (auto simp: Let_def)
  from i(1) have "i \<in> set (analyzeFontFamilyConsistency mockFamilyMetrics)" "issue_context i = Some Body"
    by (auto simp: issues_of_context_def filter_eq_Cons_iff)
  with i eq ctx card3 show ?thesis
    by (auto simp: mock_family_runs)
qed

section \<open>Font-size detector: the issues of a context\<close>

lemma mock_size: "analyzeFontSizeConsistency mockSizeMetrics = Inr []"
  by (simp add: analyzeFontSizeConsistency_def fontSizeGroups_def sizeGroups_step_def
        mockSizeMetrics_def mockMetric_def determineContext_def reduce_no_init_def
        power2_eq_square)

lemma mock_size_runs: "map fontSize (runs_of Body mockSizeMetrics) = [12, 12.5, 13]"
  by (simp add: runs_of_def mockSizeMetrics_def mockMetric_def determineContext_def)

lemma mock_size_stats:
  "population_mean [12, 12.5, 13] = 12.5 \<and> population_variance [12, 12.5, 13] = 1 / 6"
  by (simp add: population_mean_def population_variance_def power2_eq_square)

text \<open>
  Claim C3.  The font-size detector returns (it never throws), and every issue carries a
  context.  For every run list and every context, with \<open>sizes\<close> the font sizes of the
  context's runs: when the population variance of \<open>sizes\<close> exceeds 2, exactly one issue
  carries the context, of medium severity, with the population mean and the population
  variance in its details; otherwise none does.  None does, in particular, when all runs
  of the context share one size and when the context has a single run.  The three runs of
  sizes 12, 12.5 and 13 of the repository's test are body runs of mean 12.5 and variance
  1/6, and the detector returns no issue for them.
\<close>

theorem analyzeFontSizeConsistency_variance:
  "(\<exists>issues. analyzeFontSizeConsistency ms = Inr issues
      \<and> (\<forall>i \<in> set issues. \<exists>c. issue_context i = Some c)
      \<and> (\<forall>c. let sizes = map fontSize (runs_of c ms);
                  found = issues_of_context c issues
              in (if sizes \<noteq> [] \<and> population_variance sizes > 2
                  then (\<exists>i. found = [i] \<and> issue_type i = ''fontSize'' \<and> severity i = ''medium''
                          \<and> details i = Some (SizeDetails (population_mean sizes)
                                                            (population_variance sizes)))
                  else found = [])
                 \<and> ((\<forall>s \<in> set sizes. \<forall>t \<in> set sizes. s = t) \<longrightarrow> found = [])
                 \<and> (length sizes = 1 \<longrightarrow> found = [])))
   \<and> map fontSize (runs_of Body mockSizeMetrics) = [12, 12.5, 13]
   \<and> population_mean [12, 12.5, 13] = 12.5
   \<and> population_variance [12, 12.5, 13] = 1 / 6
   \<and> analyzeFontSizeConsistency mockSizeMetrics = Inr []"
proof -
  let ?issues = "concat (map sizeIssues_of (fontSizeGroups ms))"
  have ctx: "\<exists>c. issue_context i = Some c" if "i \<in> set ?issues" for i
  proof -
    from that obtain g where "i \<in> set (sizeIssues_of g)" by auto
    then show ?thesis by (auto dest: sizeIssues_of_context)
  qed
  have per: "let sizes = map fontSize (runs_of c ms);
                 found = issues_of_context c ?issues
             in (if sizes \<noteq> [] \<and> population_variance sizes > 2
                 then (\<exists>i. found = [i] \<and> issue_type i = ''fontSize'' \<and> severity i = ''medium''
                         \<and> details i = Some (SizeDetails (population_mean sizes)
                                                           (population_variance sizes)))
                 else found = [])
                \<and> ((\<forall>s \<in> set sizes. \<forall>t \<in> set sizes. s = t) \<longrightarrow> found = [])
                \<and> (length sizes = 1 \<longrightarrow> found = [])" for c
  proof -
    let ?sizes = "map fontSize (runs_of c ms)"
    let ?found = "issues_of_context c ?issues"
    let ?P = "?sizes \<noteq> [] \<and> population_variance ?sizes > 2"
    have found: "?found = (if ?P then [sizeIssue c (population_mean ?sizes) (population_variance ?sizes)] else [])"
      using size_found [of c ms] by simp
    have same: "?found = []" if all: "\<forall>s \<in> set ?sizes. \<forall>t \<in> set ?sizes. s = t"
    proof (cases "?sizes")
      case Nil
      then show ?thesis by (simp add: found)
    next
      case (Cons a rest)
      have "x = a" if "x \<in> set ?sizes" for x
      proof -
        have "a \<in> set ?sizes" by (simp add: Cons)
        with that all show ?thesis by blast
      qed
      then have "population_variance ?sizes = 0" by (rule population_variance_const)
      then show ?thesis by (simp add: found)
    qed
    have one: "?found = []" if "length ?sizes = 1"
    proof -
      from that obtain a where "?sizes = [a]" by (cases ?sizes) simp_all
      then have "population_variance ?sizes = 0"
        by (simp add: population_variance_def population_mean_def)
      then show ?thesis by (simp add: found)
    qed
    have main: "if ?P
                then (\<exists>i. ?found = [i] \<and> issue_type i = ''fontSize'' \<and> severity i = ''medium''
                        \<and> details i = Some (SizeDetails (population_mean ?sizes)
                                                          (population_variance ?sizes)))
                else ?found = []"
    proof (cases ?P)
      case True
      then have "?found = [sizeIssue c (population_mean ?sizes) (population_variance ?sizes)]"
        by (simp add: found)
      moreover have "issue_type (sizeIssue c x y) = ''fontSize'' \<and> severity (sizeIssue c x y) = ''medium''
                       \<and> details (sizeIssue c x y) = Some (SizeDetails x y)" for x y
        by (simp add: sizeIssue_def)
      ultimately show ?thesis using True by simp
    next
      case False
      then have "?found = []" by (simp add: found)
      with False show ?thesis by simp
    qed
    show ?thesis
      unfolding Let_def using main same one by blast
  qed
  have "\<exists>issues. analyzeFontSizeConsistency ms = Inr issues
      \<and> (\<forall>i \<in> set issues. \<exists>c. issue_context i = Some c)
      \<and> (\<forall>c. let sizes = map fontSize (runs_of c ms);
                  found = issues_of_context c issues
              in (if sizes \<noteq> [] \<and> population_variance sizes > 2
                  then (\<exists>i. found = [i] \<and> issue_type i = ''fontSize'' \<and> severity i = ''medium''
                          \<and> details i = Some (SizeDetails (population_mean sizes)
                                                            (population_variance sizes)))
                  else found = [])
                 \<and> ((\<forall>s \<in> set sizes. \<forall>t \<in> set sizes. s = t) \<longrightarrow> found = [])
                 \<and> (length sizes = 1 \<longrightarrow> found = []))"
    using ctx per analyzeFontSizeConsistency_eq [of ms] by blast
  with mock_size mock_size_runs mock_size_stats show ?thesis by blast
qed

lemma wide_runs: "map fontSize (runs_of Body wideSizeMetrics) = [10, 14]"
  by (simp add: runs_of_def wideSizeMetrics_def mockMetric_def determineContext_def)

lemma wide_stats: "population_mean [10, 14] = 12 \<and> population_variance [10, 14] = 4"
  by (simp add: population_mean_def population_variance_def power2_eq_square)

lemma wide_header: "map fontSize (runs_of Header wideSizeMetrics) = [24]"
  by (simp add: runs_of_def wideSizeMetrics_def mockMetric_def determineContext_def)

theorem analyzeFontSizeConsistency_variance_witness:
  "\<exists>issues. analyzeFontSizeConsistency wideSizeMetrics = Inr issues
     \<and> map fontSize (runs_of Body wideSizeMetrics) = [10, 14]
     \<and> population_variance [10, 14] > 2
     \<and> (\<exists>i. issues_of_context Body issues = [i] \<and> severity i = ''medium''
            \<and> details i = Some (SizeDetails 12 4))
     \<and> length (map fontSize (runs_of Header wideSizeMetrics)) = 1
     \<and> issues_of_context Header issues = []"
proof -
  from analyzeFontSizeConsistency_variance [of wideSizeMetrics] obtain issues where
    r: "analyzeFontSizeConsistency wideSizeMetrics = Inr issues"
    and per: "\<And>c. let sizes = map fontSize (runs_of c wideSizeMetrics);
                  found = issues_of_context c issues
              in (if sizes \<noteq> [] \<and> population_variance sizes > 2
                  then (\<exists>i. found = [i] \<and> issue_type i = ''fontSize'' \<and> severity i = ''medium''
                          \<and> details i = Some (SizeDetails (population_mean sizes)
                                                            (population_variance sizes)))
                  else found = [])
                 \<and> ((\<forall>s \<in> set sizes. \<forall>t \<in> set sizes. s = t) \<longrightarrow> found = [])
                 \<and> (length sizes = 1 \<longrightarrow> found = [])"
    by blast
  from per [of Body] have body: "\<exists>i. issues_of_context Body issues = [i] \<and> severity i = ''medium''
            \<and> details i = Some (SizeDetails 12 4)"
    by (simp add: Let_def wide_runs wide_stats) blast
  from per [of Header] have header: "issues_of_context Header issues = []"
    by (simp add: Let_def wide_header)
  from r body header show ?thesis
    by (simp add: wide_runs wide_stats wide_header)
qed

section \<open>At most three issues\<close>

text \<open>
  Claim C9.  For every run list the font-family detector returns at most 3 issues and the
  font-size detector returns at most 3 issues: each has at most one issue for a context,
  and the context of a run is one of the three labels.
\<close>

theorem detectors_at_most_three_issues:
  "length (analyzeFontFamilyConsistency ms) \<le> 3
   \<and> (\<exists>issues. analyzeFontSizeConsistency ms = Inr issues \<and> length issues \<le> 3
         \<and> (\<forall>c. length (issues_of_context c issues) \<le> 1))
   \<and> (\<forall>c. length (issues_of_context c (analyzeFontFamilyConsistency ms)) \<le> 1)
   \<and> (\<forall>m. determineContext m = Header \<or> determineContext m = Subheader \<or> determineContext m = Body)"
  by (simp add: analyzeFontFamilyConsistency_eq [symmetric] family_found 
        analyzeFontSizeConsistency_eq size_found size_at_most_3
        family_at_most_3 [unfolded analyzeFontFamilyConsistency_eq [symmetric]] determineContext_def)

section \<open>Spacing detector\<close>

lemma calculateSpacing_euclid:
  "calculateSpacing prev cur = euclidean_distance (right_edge prev) (origin cur)"
  by (simp add: calculateSpacing_def euclidean_distance_def right_edge_def origin_def
        power2_commute)

lemma spacing_step:
  "(let spacing = calculateSpacing prev m
    in if isSpacingAbnormal spacing then acc @ [spacingIssue m spacing] else acc)
   = acc @ spacingIssues_of (prev, m)"
  by (auto simp add: spacingIssues_of_def calculateSpacing_euclid isSpacingAbnormal_def
        spacingIssue_def Let_def)

lemma spacing_loop_Some:
  "spacing_loop (Some prev) ms acc = acc @ concat (map spacingIssues_of (zip (prev # ms) ms))"
proof (induction ms arbitrary: prev acc)
  case Nil
  then show ?case by simp
next
  case (Cons m ms)
  show ?case
    by (simp only: spacing_loop.simps option.case spacing_step Cons.IH) simp
qed

lemma analyzeSpacingConsistency_eq:
  "analyzeSpacingConsistency ms = concat (map spacingIssues_of (zip ms (tl ms)))"
  by (cases ms) (simp_all add: analyzeSpacingConsistency_def spacing_loop_Some)

text \<open>The three runs of the repository's spacing test: the gap of 40 before the second run
  and the gap of 0 before the third are both abnormal.\<close>

lemma mock_spacing:
  "map (\<lambda>i. (issue_position i, details i)) (analyzeSpacingConsistency mockSpacingMetrics)
     = [(Some \<lparr> pos_x = 50, pos_y = 0 \<rparr>, Some (SpacingDetails 40)),
        (Some \<lparr> pos_x = 60, pos_y = 0 \<rparr>, Some (SpacingDetails 0))]"
  by (simp add: analyzeSpacingConsistency_def mockSpacingMetrics_def calculateSpacing_def
        mockMetric_def isSpacingAbnormal_def spacingIssue_def)

text \<open>
  Claim C4.  The spacing of a pair is the Euclidean distance from the right edge of the
  predecessor to the origin of the current run.  For every run list the spacing issues
  are, in input order, the contributions of the pairs of a run and its immediate
  successor (the first run is the second of no pair): a pair whose spacing is in the
  closed interval from 0.1 to 20 contributes nothing, and every other pair contributes
  exactly one issue of medium severity with the spacing in its details and the position of
  the current run.
\<close>

theorem analyzeSpacingConsistency_adjacent_pairs:
  "calculateSpacing prev cur = euclidean_distance (right_edge prev) (origin cur)
   \<and> analyzeSpacingConsistency ms = concat (map spacingIssues_of (zip ms (tl ms)))
   \<and> spacingIssues_of (prev, cur) =
       (let spacing = calculateSpacing prev cur
        in if spacing < 0.1 \<or> spacing > 20
           then [\<lparr> issue_type = ''spacing'',
                   issue_context = None,
                   issue_position = Some (run_position cur),
                   description = ''Abnormal character spacing detected'',
                   severity = ''medium'',
                   detectedFonts = None,
                   details = Some (SpacingDetails spacing) \<rparr>]
           else [])"
  by (auto simp add: calculateSpacing_euclid analyzeSpacingConsistency_eq spacingIssues_of_def
        Let_def)

section \<open>The report\<close>

lemma count_totalIssues_eq:
  "count_totalIssues inc
     = length (issuesList (inc_fontFamily inc)) + length (inc_fontSize inc) + length (inc_spacing inc)"
  by (cases "inc_fontFamily inc") (simp_all add: count_totalIssues_def entries_def)

lemma detect_Nil: "detect [] = Inr noIssues"
  by (simp add: detect_def noIssues_def analyzeFontSizeConsistency_def fontSizeGroups_def
      analyzeFontFamilyConsistency_def fontFamilyGroups_def analyzeSpacingConsistency_def unique_Nil)

lemma empty_report:
  "\<exists>r. generateReport now noIssues = Inr r \<and> \<not> suspicious r \<and> rep_severityScore r = 0 \<and> confidence r = 1"
  by (simp add: generateReport_def noIssues_def Let_def count_totalIssues_eq
        calculateSeverityScore_unfold issueScore_def calculateConfidenceScore_def)

text \<open>
  When the \<^verbatim>\<open>fontFamily\<close> entry is the object \<^verbatim>\<open>{issues, detectedFonts}\<close>, the
  shape in which \<^verbatim>\<open>analyzePDF\<close> passes the three issue lists, the report is returned,
  its \<^verbatim>\<open>totalIssues\<close> is the sum of the three issue counts and its \<^verbatim>\<open>suspicious\<close>
  flag is true exactly when \<^verbatim>\<open>totalIssues\<close> is greater than 0.
\<close>

lemma generateReport_wrapped:
  "\<exists>r. generateReport now
          \<lparr> inc_fontFamily = IssueObject familyList fonts,
            inc_fontSize = sizeList,
            inc_spacing = spacingList \<rparr> = Inr r
      \<and> totalIssues (rep_summary r)
          = length familyList + length sizeList + length spacingList
      \<and> suspicious r = (totalIssues (rep_summary r) > 0)
      \<and> fontFamilyIssues (rep_summary r) = length familyList
      \<and> fontSizeIssues (rep_summary r) = length sizeList
      \<and> spacingIssues (rep_summary r) = length spacingList"
  by (simp add: generateReport_def Let_def count_totalIssues_eq)

text \<open>
  Claim C6, on three plain issue lists.  The count of \<^verbatim>\<open>generateReport\<close> is the sum of
  the lengths of the three issue lists, whether the \<^verbatim>\<open>fontFamily\<close> entry is an array or
  the object \<^verbatim>\<open>{issues, detectedFonts}\<close>.  But when the three lists are passed as
  three arrays, as the repository's test passes them, no report is returned, whatever the
  lists are: the summary reads \<^verbatim>\<open>inconsistencies.fontFamily.issues.length\<close>, which on an
  array throws a \<^verbatim>\<open>TypeError\<close>.  At the input of the test the count is 3 and the
  result is that error, where the claim has a report with \<^verbatim>\<open>totalIssues\<close> 3 that is
  suspicious.
\<close>

theorem generateReport_plain_arrays_throw:
  "count_totalIssues inc
     = length (issuesList (inc_fontFamily inc)) + length (inc_fontSize inc)
       + length (inc_spacing inc)
   \<and> generateReport now
         \<lparr> inc_fontFamily = IssueArray familyList,
           inc_fontSize = sizeList,
           inc_spacing = spacingList \<rparr>
       = Inl (TypeError ''Cannot read properties of undefined (reading 'length')'')
   \<and> count_totalIssues mockInconsistencies = 3
   \<and> generateReport now mockInconsistencies
       = Inl (TypeError ''Cannot read properties of undefined (reading 'length')'')"
  by (simp add: generateReport_def Let_def count_totalIssues_eq mockInconsistencies_def)

section \<open>Confidence score\<close>

text \<open>
  Claim C5.  For every severity score and every issue count, the confidence is
  \<open>max 0 (baseConfidence - issuesPenalty)\<close> with \<open>baseConfidence\<close> the clamp of
  \<open>1 - severityScore / 10\<close> to the interval from 0 to 1 and \<open>issuesPenalty\<close> the smaller of
  0.5 and a tenth of the issue count; it lies between 0 and 1; with no issue and severity 0
  it is 1.  The confidence of a report is that value at the report's issue count and
  severity score, and the report of the empty run list is not suspicious and has severity
  score 0 and confidence 1.
\<close>

theorem calculateConfidenceScore_spec:
  "calculateConfidenceScore n s = max 0 (clamp (1 - s / 10) 0 1 - min 0.5 (real n * 0.1))
   \<and> 0 \<le> calculateConfidenceScore n s \<and> calculateConfidenceScore n s \<le> 1
   \<and> calculateConfidenceScore 0 0 = 1
   \<and> (generateReport now inc = Inr r \<longrightarrow>
         confidence r
           = max 0 (clamp (1 - rep_severityScore r / 10) 0 1
                    - min 0.5 (real (totalIssues (rep_summary r)) * 0.1)))
   \<and> (\<exists>inc0 r0. detect [] = Inr inc0 \<and> generateReport now inc0 = Inr r0
         \<and> \<not> suspicious r0 \<and> rep_severityScore r0 = 0 \<and> confidence r0 = 1)"
proof -
  have f: "calculateConfidenceScore k t = max 0 (clamp (1 - t / 10) 0 1 - min 0.5 (real k * 0.1))"
    for k t
    by (auto simp: calculateConfidenceScore_def clamp_def Let_def min_def max_def)
  have b: "0 \<le> calculateConfidenceScore n s \<and> calculateConfidenceScore n s \<le> 1"
    by (auto simp: calculateConfidenceScore_def Let_def min_def max_def)
  have z: "calculateConfidenceScore 0 0 = 1"
    by (simp add: calculateConfidenceScore_def)
  have r: "confidence r
           = max 0 (clamp (1 - rep_severityScore r / 10) 0 1
                    - min 0.5 (real (totalIssues (rep_summary r)) * 0.1))"
    if "generateReport now inc = Inr r"
  proof (cases "inc_fontFamily inc")
    case (IssueArray xs)
    with that show ?thesis by (simp add: generateReport_def Let_def)
  next
    case (IssueObject issues fonts)
    with that have "confidence r
        = calculateConfidenceScore (totalIssues (rep_summary r)) (rep_severityScore r)"
      by (auto simp: generateReport_def Let_def)
    then show ?thesis by (simp only: f)
  qed
  from detect_Nil empty_report [of now] have e:
    "\<exists>inc0 r0. detect [] = Inr inc0 \<and> generateReport now inc0 = Inr r0
         \<and> \<not> suspicious r0 \<and> rep_severityScore r0 = 0 \<and> confidence r0 = 1"
    by blast
  from f [of n s] b z r e show ?thesis by blast
qed

theorem calculateConfidenceScore_spec_witness:
  "\<exists>r. generateReport ''2024-01-01T00:00:00.000Z'' noIssues = Inr r
     \<and> rep_severityScore r = 0 \<and> totalIssues (rep_summary r) = 0 \<and> confidence r = 1"
proof -
  obtain r where r: "generateReport ''2024-01-01T00:00:00.000Z'' noIssues = Inr r"
    "rep_severityScore r = 0" "totalIssues (rep_summary r) = 0"
    by (simp add: generateReport_def noIssues_def Let_def count_totalIssues_eq
          calculateSeverityScore_unfold issueScore_def)
  from calculateConfidenceScore_spec [of 0 0 "''2024-01-01T00:00:00.000Z''" noIssues r] r(1)
  have "confidence r
           = max 0 (clamp (1 - rep_severityScore r / 10) 0 1
                    - min 0.5 (real (totalIssues (rep_summary r)) * 0.1))"
    by blast
  then have "confidence r = 1" by (simp add: r clamp_def)
  with r show ?thesis by blast
qed

section \<open>Failures of the overlay generators\<close>

lemma try_catch_Inl:
  "snd (try_catch label msg body) = Inl err \<Longrightarrow> err = new_Error msg"
  by (cases body) (simp_all add: try_catch_def)

lemma analyzePDF_Inl:
  "snd (analyzePDF e buf) = Inl err \<Longrightarrow> err = new_Error ''Failed to analyze PDF document''"
  by (cases "analyzePDF_try e buf"; cases "snd (analyzePDF_try e buf)")
     (auto simp: analyzePDF_def)

lemma map_fst_fontColors: "map fst (fontColors ms) = unique (map fontFamily ms)"
proof -
  let ?u = "unique (map fontFamily ms)"
  have "map fst (fontColors ms) = map snd (zip [0..<length ?u] ?u)"
    by (simp add: fontColors_def Let_def case_prod_beta comp_def)
  then show ?thesis by simp
qed

lemma fontColors_defined:
  assumes "m \<in> set ms"
  shows "map_of (fontColors ms) (fontFamily m) \<noteq> None"
proof -
  from assms have "fontFamily m \<in> set (map fst (fontColors ms))"
    by (simp add: map_fst_fontColors set_unique)
  then show ?thesis
    by (simp add: map_of_eq_None_iff)
qed

lemma fontType_rects_defined:
  "(\<And>m. m \<in> set ms \<Longrightarrow> map_of table (fontFamily m) \<noteq> None) \<Longrightarrow>
   \<exists>ops. fontType_rects pages h0 table ms = Inr ops"
proof (induction ms)
  case Nil
  then show ?case by simp
next
  case (Cons m ms)
  then obtain rest where rest: "fontType_rects pages h0 table ms = Inr rest" by auto
  from Cons.prems [of m] obtain entry where "map_of table (fontFamily m) = Some entry" by auto
  with rest show ?case
    by (cases "pageIndex_of pages h0 (run_position m)") simp_all
qed

lemma fontType_plan_defined:
  "pages \<noteq> [] \<Longrightarrow> \<exists>ops. fontType_plan pages ms = Inr ops"
proof -
  assume "pages \<noteq> []"
  then obtain h0 others where pages: "pages = h0 # others" by (cases pages) auto
  from fontType_rects_defined [of ms "fontColors ms" pages h0] fontColors_defined [of _ ms]
  obtain ops where "fontType_rects pages h0 (fontColors ms) ms = Inr ops" by blast
  with pages show ?thesis by (simp add: fontType_plan_def Let_def)
qed

lemma highlight_plan_defined:
  "pages \<noteq> [] \<Longrightarrow> \<exists>ops. highlight_plan pages ms inc = Inr ops"
  by (cases pages) (simp_all add: highlight_plan_def)

lemma detect_defined: "\<exists>familyList fonts sizeList spacingList.
    detect ms = Inr \<lparr> inc_fontFamily = IssueObject familyList fonts, inc_fontSize = sizeList,
                       inc_spacing = spacingList \<rparr>"
  by (simp add: detect_def analyzeFontSizeConsistency_eq Let_def)

lemma generateReport_defined:
  "\<exists>r. generateReport now \<lparr> inc_fontFamily = IssueObject issues fonts, inc_fontSize = a,
                              inc_spacing = b \<rparr> = Inr r"
  by (simp add: generateReport_def Let_def)

lemma detect_report_defined:
  assumes "detect ms = Inr found"
  shows "\<exists>r. generateReport now found = Inr r"
proof -
  from detect_defined [of ms] assms obtain issues fonts a b where
    "found = \<lparr> inc_fontFamily = IssueObject issues fonts, inc_fontSize = a, inc_spacing = b \<rparr>"
    by auto
  with generateReport_defined [of now issues fonts a b] show ?thesis by simp
qed

text \<open>The writer rejects the plan that the generator has made.\<close>

lemma highlighted_rejected:
  assumes "env_load e buf = Inr pages"
    and "highlight_plan pages ms inc = Inr ops"
    and "env_save e buf ops = Inl cause"
  shows "generateHighlightedPDF e buf ms inc
           = ([(''Error generating highlighted PDF:'', cause)],
              Inl (new_Error ''Failed to generate highlighted PDF''))"
  using assms by (simp add: generateHighlightedPDF_def try_catch_def)

lemma fontType_rejected:
  assumes "env_load e buf = Inr pages"
    and "fontType_plan pages ms = Inr ops"
    and "env_save e buf ops = Inl cause"
  shows "generateFontTypePDF e buf ms
           = ([(''Error generating font type PDF:'', cause)],
              Inl (new_Error ''Failed to generate font type PDF''))"
  using assms by (simp add: generateFontTypePDF_def try_catch_def)

text \<open>The document does not load.\<close>

lemma generators_load_failed:
  assumes "env_load e buf = Inl cause"
  shows "generateHighlightedPDF e buf ms inc
           = ([(''Error generating highlighted PDF:'', cause)],
              Inl (new_Error ''Failed to generate highlighted PDF''))
         \<and> generateFontTypePDF e buf ms
           = ([(''Error generating font type PDF:'', cause)],
              Inl (new_Error ''Failed to generate font type PDF''))"
  using assms by (simp add: generateHighlightedPDF_def generateFontTypePDF_def try_catch_def)

text \<open>The failure of the first generator inside \<^verbatim>\<open>analyzePDF\<close>.\<close>

lemma analyzePDF_highlighted_rejected:
  assumes items: "env_getTextContent e buf = Inr items"
    and found: "detect (concat (map (map item_metric) items)) = Inr found"
    and load: "env_load e buf = Inr pages"
    and plan: "highlight_plan pages (concat (map (map item_metric) items)) found = Inr ops"
    and save: "env_save e buf ops = Inl cause"
  shows "analyzePDF e buf
           = ([(''Error generating highlighted PDF:'', cause),
               (''Error analyzing PDF:'', new_Error ''Failed to generate highlighted PDF'')],
              Inl (new_Error ''Failed to analyze PDF document''))"
proof -
  let ?ms = "concat (map (map item_metric) items)"
  have ex: "extractFontMetrics e buf = Inr ?ms"
    by (simp add: extractFontMetrics_def items)
  from detect_report_defined [OF found] obtain r where
    r: "generateReport (env_now e) found = Inr r" by blast
  show ?thesis
    by (simp add: analyzePDF_def analyzePDF_try_def ex found r
          highlighted_rejected [OF load plan save])
qed

text \<open>The failure of the second generator inside \<^verbatim>\<open>analyzePDF\<close>, after the first has
  saved its document.\<close>

lemma analyzePDF_fontType_rejected:
  assumes items: "env_getTextContent e buf = Inr items"
    and found: "detect (concat (map (map item_metric) items)) = Inr found"
    and load: "env_load e buf = Inr pages"
    and plan1: "highlight_plan pages (concat (map (map item_metric) items)) found = Inr ops1"
    and save1: "env_save e buf ops1 = Inr saved"
    and plan2: "fontType_plan pages (concat (map (map item_metric) items)) = Inr ops2"
    and save2: "env_save e buf ops2 = Inl cause"
  shows "analyzePDF e buf
           = ([(''Error generating font type PDF:'', cause),
               (''Error analyzing PDF:'', new_Error ''Failed to generate font type PDF'')],
              Inl (new_Error ''Failed to analyze PDF document''))"
proof -
  let ?ms = "concat (map (map item_metric) items)"
  have ex: "extractFontMetrics e buf = Inr ?ms"
    by (simp add: extractFontMetrics_def items)
  from detect_report_defined [OF found] obtain r where
    r: "generateReport (env_now e) found = Inr r" by blast
  have h: "generateHighlightedPDF e buf ?ms found = ([], Inr saved)"
    using load plan1 save1 by (simp add: generateHighlightedPDF_def try_catch_def)
  show ?thesis
    by (simp add: analyzePDF_def analyzePDF_try_def ex found r h
          fontType_rejected [OF load plan2 save2])
qed

text \<open>
  Claim C7, as the code has it.  When the document loads and the writer rejects the
  drawing plan that an overlay generator has made for it, or when the document does not
  load, the generator fails: the failure reaches the caller.  Inside \<^verbatim>\<open>analyzePDF\<close>
  the failure of either generator makes \<^verbatim>\<open>analyzePDF\<close> fail in turn.  On a document
  with at least one page both plans are made, so that the writer decides.  What the caller
  gets is a new error with a fixed message (\<^verbatim>\<open>Failed to generate highlighted PDF\<close>,
  \<^verbatim>\<open>Failed to generate font type PDF\<close>, and from \<^verbatim>\<open>analyzePDF\<close>
  \<^verbatim>\<open>Failed to analyze PDF document\<close>), whatever failed inside; such an error has no
  cause, and the originating error is passed to the logger only.
\<close>

theorem overlay_failure_generic_error:
  "(env_load e buf = Inr pages \<and> highlight_plan pages ms inc = Inr hops
      \<and> env_save e buf hops = Inl cause \<longrightarrow>
      generateHighlightedPDF e buf ms inc
        = ([(''Error generating highlighted PDF:'', cause)],
           Inl (new_Error ''Failed to generate highlighted PDF'')))
   \<and> (env_load e buf = Inr pages \<and> fontType_plan pages ms = Inr fops
      \<and> env_save e buf fops = Inl cause \<longrightarrow>
      generateFontTypePDF e buf ms
        = ([(''Error generating font type PDF:'', cause)],
           Inl (new_Error ''Failed to generate font type PDF'')))
   \<and> (env_load e buf = Inl cause \<longrightarrow>
      generateHighlightedPDF e buf ms inc
        = ([(''Error generating highlighted PDF:'', cause)],
           Inl (new_Error ''Failed to generate highlighted PDF''))
      \<and> generateFontTypePDF e buf ms
        = ([(''Error generating font type PDF:'', cause)],
           Inl (new_Error ''Failed to generate font type PDF'')))
   \<and> (env_getTextContent e buf = Inr items
      \<and> detect (concat (map (map item_metric) items)) = Inr found
      \<and> env_load e buf = Inr pages
      \<and> highlight_plan pages (concat (map (map item_metric) items)) found = Inr ops1
      \<and> env_save e buf ops1 = Inl cause \<longrightarrow>
      analyzePDF e buf
        = ([(''Error generating highlighted PDF:'', cause),
            (''Error analyzing PDF:'', new_Error ''Failed to generate highlighted PDF'')],
           Inl (new_Error ''Failed to analyze PDF document'')))
   \<and> (env_getTextContent e buf = Inr items
      \<and> detect (concat (map (map item_metric) items)) = Inr found
      \<and> env_load e buf = Inr pages
      \<and> highlight_plan pages (concat (map (map item_metric) items)) found = Inr ops1
      \<and> env_save e buf ops1 = Inr saved
      \<and> fontType_plan pages (concat (map (map item_metric) items)) = Inr ops2
      \<and> env_save e buf ops2 = Inl cause \<longrightarrow>
      analyzePDF e buf
        = ([(''Error generating font type PDF:'', cause),
            (''Error analyzing PDF:'', new_Error ''Failed to generate font type PDF'')],
           Inl (new_Error ''Failed to analyze PDF document'')))
   \<and> (pages \<noteq> [] \<longrightarrow>
         (\<exists>ops. highlight_plan pages ms inc = Inr ops) \<and> (\<exists>ops. fontType_plan pages ms = Inr ops))
   \<and> (\<exists>found. detect ms = Inr found)
   \<and> (\<forall>err. snd (generateHighlightedPDF e buf ms inc) = Inl err \<longrightarrow>
         err = new_Error ''Failed to generate highlighted PDF'')
   \<and> (\<forall>err. snd (generateFontTypePDF e buf ms) = Inl err \<longrightarrow>
         err = new_Error ''Failed to generate font type PDF'')
   \<and> (\<forall>err. snd (analyzePDF e buf) = Inl err \<longrightarrow>
         err = new_Error ''Failed to analyze PDF document'')
   \<and> err_cause (new_Error msg) = None"
proof (intro conjI impI allI)
  fix err
  assume "snd (generateHighlightedPDF e buf ms inc) = Inl err"
  then show "err = new_Error ''Failed to generate highlighted PDF''"
    unfolding generateHighlightedPDF_def by (rule try_catch_Inl)
next
  fix err
  assume "snd (generateFontTypePDF e buf ms) = Inl err"
  then show "err = new_Error ''Failed to generate font type PDF''"
    unfolding generateFontTypePDF_def by (rule try_catch_Inl)
next
  fix err
  assume "snd (analyzePDF e buf) = Inl err"
  then show "err = new_Error ''Failed to analyze PDF document''" by (rule analyzePDF_Inl)
next
  show "err_cause (new_Error msg) = None" by (simp add: new_Error_def)
next
  show "\<exists>found. detect ms = Inr found" using detect_defined [of ms] by blast
next
  assume "pages \<noteq> []"
  then show "\<exists>ops. highlight_plan pages ms inc = Inr ops" by (rule highlight_plan_defined)
next
  assume "pages \<noteq> []"
  then show "\<exists>ops. fontType_plan pages ms = Inr ops" by (rule fontType_plan_defined)
next
  assume "env_load e buf = Inr pages \<and> highlight_plan pages ms inc = Inr hops
      \<and> env_save e buf hops = Inl cause"
  then show "generateHighlightedPDF e buf ms inc
        = ([(''Error generating highlighted PDF:'', cause)],
           Inl (new_Error ''Failed to generate highlighted PDF''))"
    by (intro highlighted_rejected [of e buf pages ms inc hops cause]) simp_all
next
  assume "env_load e buf = Inr pages \<and> fontType_plan pages ms = Inr fops
      \<and> env_save e buf fops = Inl cause"
  then show "generateFontTypePDF e buf ms
        = ([(''Error generating font type PDF:'', cause)],
           Inl (new_Error ''Failed to generate font type PDF''))"
    by (intro fontType_rejected [of e buf pages ms fops cause]) simp_all
next
  assume "env_load e buf = Inl cause"
  from generators_load_failed [OF this, of ms inc]
  show "generateHighlightedPDF e buf ms inc
        = ([(''Error generating highlighted PDF:'', cause)],
           Inl (new_Error ''Failed to generate highlighted PDF''))"
    by simp
next
  assume "env_load e buf = Inl cause"
  from generators_load_failed [OF this, of ms inc]
  show "generateFontTypePDF e buf ms
        = ([(''Error generating font type PDF:'', cause)],
           Inl (new_Error ''Failed to generate font type PDF''))"
    by simp
next
  assume "env_getTextContent e buf = Inr items
      \<and> detect (concat (map (map item_metric) items)) = Inr found
      \<and> env_load e buf = Inr pages
      \<and> highlight_plan pages (concat (map (map item_metric) items)) found = Inr ops1
      \<and> env_save e buf ops1 = Inl cause"
  then show "analyzePDF e buf
        = ([(''Error generating highlighted PDF:'', cause),
            (''Error analyzing PDF:'', new_Error ''Failed to generate highlighted PDF'')],
           Inl (new_Error ''Failed to analyze PDF document''))"
    by (intro analyzePDF_highlighted_rejected [of e buf items found pages ops1 cause]) simp_all
next
  assume "env_getTextContent e buf = Inr items
      \<and> detect (concat (map (map item_metric) items)) = Inr found
      \<and> env_load e buf = Inr pages
      \<and> highlight_plan pages (concat (map (map item_metric) items)) found = Inr ops1
      \<and> env_save e buf ops1 = Inr saved
      \<and> fontType_plan pages (concat (map (map item_metric) items)) = Inr ops2
      \<and> env_save e buf ops2 = Inl cause"
  then show "analyzePDF e buf
        = ([(''Error generating font type PDF:'', cause),
            (''Error analyzing PDF:'', new_Error ''Failed to generate font type PDF'')],
           Inl (new_Error ''Failed to analyze PDF document''))"
    by (intro analyzePDF_fontType_rejected [of e buf items found pages ops1 saved ops2 cause])
       simp_all
qed

lemma empty_highlight_plan: "highlight_plan [800] [] noIssues = Inr highlight_legend"
  by (simp add: highlight_plan_def noIssues_def highlight_family_def highlight_size_def
        highlight_spacing_def)

lemma empty_fontType_plan: "fontType_plan [800] [] = Inr (fontType_legend [])"
  by (simp add: fontType_plan_def fontColors_def unique_Nil)

lemma highlight_legend_length: "length highlight_legend = 7"
  by (simp add: highlight_legend_def colors_def legend_entry_def upt_rec)

lemma fontType_legend_Nil_length: "length (fontType_legend []) = 1"
  by (simp add: fontType_legend_def)

theorem overlay_failure_generic_error_witness:
  "env_load pickyWriter [] = Inr [800]
   \<and> highlight_plan [800] [] noIssues = Inr highlight_legend
   \<and> env_save pickyWriter [] highlight_legend = Inl geometryError
   \<and> env_save pickyWriter [] [] = Inr []
   \<and> generateHighlightedPDF pickyWriter [] [] noIssues
        = ([(''Error generating highlighted PDF:'', geometryError)],
           Inl (new_Error ''Failed to generate highlighted PDF''))
   \<and> fontType_plan [800] [] = Inr (fontType_legend [])
   \<and> env_save pickyWriter [] (fontType_legend []) = Inl geometryError
   \<and> generateFontTypePDF pickyWriter [] []
        = ([(''Error generating font type PDF:'', geometryError)],
           Inl (new_Error ''Failed to generate font type PDF''))
   \<and> env_getTextContent pickyWriter [] = Inr [[]]
   \<and> detect (concat (map (map item_metric) [[]])) = Inr noIssues
   \<and> analyzePDF pickyWriter []
        = ([(''Error generating highlighted PDF:'', geometryError),
            (''Error analyzing PDF:'', new_Error ''Failed to generate highlighted PDF'')],
           Inl (new_Error ''Failed to analyze PDF document''))
   \<and> env_save lastPlanRejected [] highlight_legend = Inr []
   \<and> env_save lastPlanRejected [] (fontType_legend []) = Inl geometryError
   \<and> analyzePDF lastPlanRejected []
        = ([(''Error generating font type PDF:'', geometryError),
            (''Error analyzing PDF:'', new_Error ''Failed to generate font type PDF'')],
           Inl (new_Error ''Failed to analyze PDF document''))
   \<and> err_cause (new_Error ''Failed to analyze PDF document'') = None"
proof -
  have hne: "highlight_legend \<noteq> []" using highlight_legend_length by auto
  have fne: "fontType_legend [] \<noteq> []" using fontType_legend_Nil_length by auto
  have l: "env_load pickyWriter [] = Inr [800]" by (simp add: pickyWriter_def)
  have sh: "env_save pickyWriter [] highlight_legend = Inl geometryError"
    by (simp add: pickyWriter_def hne)
  have sf: "env_save pickyWriter [] (fontType_legend []) = Inl geometryError"
    by (simp add: pickyWriter_def fne)
  have se: "env_save pickyWriter [] [] = Inr []" by (simp add: pickyWriter_def)
  have g: "env_getTextContent pickyWriter [] = Inr [[]]" by (simp add: pickyWriter_def)
  have d: "detect (concat (map (map item_metric) [[]])) = Inr noIssues"
    by (simp add: detect_Nil)
  have ph: "highlight_plan [800] (concat (map (map item_metric) [[]])) noIssues
              = Inr highlight_legend"
    by (simp add: empty_highlight_plan)
  have pf: "fontType_plan [800] (concat (map (map item_metric) [[]])) = Inr (fontType_legend [])"
    by (simp add: empty_fontType_plan)
  note T = overlay_failure_generic_error [where e = pickyWriter and buf = "[]"
             and pages = "[800]" and ms = "[]" and inc = noIssues
             and hops = highlight_legend and fops = "fontType_legend []"
             and cause = geometryError and items = "[[]]" and found = noIssues
             and ?ops1.0 = highlight_legend
             and msg = "''Failed to analyze PDF document''"]
  from T l empty_highlight_plan sh have 1:
    "generateHighlightedPDF pickyWriter [] [] noIssues
        = ([(''Error generating highlighted PDF:'', geometryError)],
           Inl (new_Error ''Failed to generate highlighted PDF''))"
    by blast
  from T l empty_fontType_plan sf have 2:
    "generateFontTypePDF pickyWriter [] []
        = ([(''Error generating font type PDF:'', geometryError)],
           Inl (new_Error ''Failed to generate font type PDF''))"
    by blast
  from T g d l ph sh have 3:
    "analyzePDF pickyWriter []
        = ([(''Error generating highlighted PDF:'', geometryError),
            (''Error analyzing PDF:'', new_Error ''Failed to generate highlighted PDF'')],
           Inl (new_Error ''Failed to analyze PDF document''))"
    by blast
  from T have 4: "err_cause (new_Error ''Failed to analyze PDF document'') = None" by blast
  have l': "env_load lastPlanRejected [] = Inr [800]" by (simp add: lastPlanRejected_def)
  have g': "env_getTextContent lastPlanRejected [] = Inr [[]]"
    by (simp add: lastPlanRejected_def)
  have sh': "env_save lastPlanRejected [] highlight_legend = Inr []"
    by (simp add: lastPlanRejected_def highlight_legend_length)
  have sf': "env_save lastPlanRejected [] (fontType_legend []) = Inl geometryError"
    by (simp add: lastPlanRejected_def fontType_legend_Nil_length)
  note U = overlay_failure_generic_error [where e = lastPlanRejected and buf = "[]"
             and pages = "[800]" and cause = geometryError and items = "[[]]"
             and found = noIssues and ?ops1.0 = highlight_legend and saved = "[]"
             and ?ops2.0 = "fontType_legend []"]
  from U g' d l' ph sh' pf sf' have 5:
    "analyzePDF lastPlanRejected []
        = ([(''Error generating font type PDF:'', geometryError),
            (''Error analyzing PDF:'', new_Error ''Failed to generate font type PDF'')],
           Inl (new_Error ''Failed to analyze PDF document''))"
    by blast
  from l empty_highlight_plan sh se 1 empty_fontType_plan sf 2 g d 3 sh' sf' 5 4
  show ?thesis by blast
qed

text \<open>The claim as the specification states it fails on the writer that rejects with
  \<open>geometryError\<close>: none of the three errors the callers get carries that cause.\<close>

theorem overlay_failure_cause_dropped:
  "snd (generateHighlightedPDF rejectingWriter [] [] noIssues)
     = Inl (new_Error ''Failed to generate highlighted PDF'')
   \<and> \<not> carries_cause geometryError (new_Error ''Failed to generate highlighted PDF'')
   \<and> snd (generateFontTypePDF rejectingWriter [] [])
     = Inl (new_Error ''Failed to generate font type PDF'')
   \<and> \<not> carries_cause geometryError (new_Error ''Failed to generate font type PDF'')
   \<and> snd (analyzePDF rejectingWriter [])
     = Inl (new_Error ''Failed to analyze PDF document'')
   \<and> \<not> carries_cause geometryError (new_Error ''Failed to analyze PDF document'')"
proof -
  have l: "env_load rejectingWriter [] = Inr [800]" by (simp add: rejectingWriter_def)
  have s: "\<And>ops. env_save rejectingWriter [] ops = Inl geometryError"
    by (simp add: rejectingWriter_def)
  have g: "env_getTextContent rejectingWriter [] = Inr [[]]" by (simp add: rejectingWriter_def)
  have d: "detect (concat (map (map item_metric) [[]])) = Inr noIssues"
    by (simp add: detect_Nil)
  have ph: "highlight_plan [800] (concat (map (map item_metric) [[]])) noIssues
              = Inr highlight_legend"
    by (simp add: empty_highlight_plan)
  show ?thesis
    by (simp add: highlighted_rejected [OF l empty_highlight_plan s]
          fontType_rejected [OF l empty_fontType_plan s]
          analyzePDF_highlighted_rejected [OF g d l ph s] new_Error_def geometryError_def)
qed

section \<open>The y axis\<close>

lemma pageIndex_of_Some: "pageIndex_of pages h0 pos = Some p \<Longrightarrow> p < length pages"
  by (auto simp: pageIndex_of_def Let_def nat_less_iff split: if_splits)

lemma pageIndex_of_off_page: "\<not> on_page pages h0 pos \<Longrightarrow> pageIndex_of pages h0 pos = None"
  by (auto simp: pageIndex_of_def on_page_def Let_def)

lemma draw_at_flipped: "p < length pages \<Longrightarrow> flipped_rectangle pages pos (draw_at pages p pos w h col)"
  by (simp add: flipped_rectangle_def draw_at_def)

lemma place_rectangle_flipped:
  "op \<in> set (place_rectangle pages h0 pos w h col) \<Longrightarrow> flipped_rectangle pages pos op"
  by (auto simp: place_rectangle_def draw_at_flipped pageIndex_of_Some split: option.splits)

lemma metric_rectangle_flipped:
  "op \<in> set (metric_rectangle pages h0 col m) \<Longrightarrow> flipped_rectangle pages (run_position m) op"
  unfolding metric_rectangle_def by (rule place_rectangle_flipped)

lemma highlight_family_flipped:
  assumes "op \<in> set (highlight_family pages h0 ms entry)"
  shows "\<exists>m \<in> set ms. flipped_rectangle pages (run_position m) op"
proof (cases entry)
  case (IssueArray xs)
  with assms show ?thesis by (simp add: highlight_family_def)
next
  case (IssueObject issues fonts)
  with assms obtain i m where "m \<in> set (family_affected i ms)"
    "op \<in> set (metric_rectangle pages h0 colors_fontFamily m)"
    by (auto simp: highlight_family_def)
  then show ?thesis
    by (auto simp: family_affected_def dest: metric_rectangle_flipped)
qed

lemma highlight_size_flipped:
  assumes "op \<in> set (highlight_size pages h0 ms issues)"
  shows "\<exists>m \<in> set ms. flipped_rectangle pages (run_position m) op"
proof -
  from assms obtain i m where "m \<in> set (size_affected i ms)"
    "op \<in> set (metric_rectangle pages h0 colors_fontSize m)"
    by (auto simp: highlight_size_def)
  then show ?thesis
    by (auto simp: size_affected_def dest: metric_rectangle_flipped)
qed

lemma highlight_spacing_flipped:
  assumes "op \<in> set (highlight_spacing pages h0 issues)"
  shows "\<exists>i \<in> set issues. \<exists>pos. issue_position i = Some pos \<and> flipped_rectangle pages pos op"
proof -
  from assms obtain i where i: "i \<in> set issues"
    "op \<in> set (case issue_position i of None \<Rightarrow> []
                 | Some pos \<Rightarrow> place_rectangle pages h0 pos 10 10 colors_spacing)"
    by (auto simp: highlight_spacing_def)
  then obtain pos where "issue_position i = Some pos"
    "op \<in> set (place_rectangle pages h0 pos 10 10 colors_spacing)"
    by (cases "issue_position i") auto
  with i(1) show ?thesis by (auto dest: place_rectangle_flipped)
qed

lemma fontType_rects_flipped:
  "fontType_rects pages h0 table ms = Inr ops \<Longrightarrow> op \<in> set ops \<Longrightarrow>
   \<exists>m \<in> set ms. flipped_rectangle pages (run_position m) op"
proof (induction ms arbitrary: ops)
  case Nil
  then show ?case by simp
next
  case (Cons m ms)
  from Cons.prems(1) obtain first rest where
    first: "(case pageIndex_of pages h0 (run_position m) of
              None \<Rightarrow> Inr []
            | Some pageIndex \<Rightarrow>
                (case map_of table (fontFamily m) of
                   None \<Rightarrow> Inl (TypeError ''Cannot read properties of undefined'')
                 | Some entry \<Rightarrow>
                     Inr [draw_at pages pageIndex (run_position m)
                            (or_10 (width m)) (or_10 (height m)) (fst entry)])) = Inr first"
    and rest: "fontType_rects pages h0 table ms = Inr rest"
    and ops: "ops = first @ rest"
    by (auto split: sum.splits)
  from Cons.prems(2) ops consider "op \<in> set first" | "op \<in> set rest" by auto
  then show ?case
  proof cases
    case 1
    with first have "flipped_rectangle pages (run_position m) op"
      by (auto split: option.splits simp: draw_at_flipped pageIndex_of_Some)
    then show ?thesis by simp
  next
    case 2
    from Cons.IH [OF rest 2] show ?thesis by auto
  qed
qed

lemma extract_y:
  "env_getTextContent e buf = Inr items \<Longrightarrow>
   \<exists>ms. extractFontMetrics e buf = Inr ms
      \<and> map (\<lambda>m. pos_y (run_position m)) ms
          = map (\<lambda>it. transform_5 (item_transform it)) (concat items)"
  by (simp add: extractFontMetrics_def map_concat comp_def item_metric_def)

text \<open>
  Claim C8, as the code has it.  The extraction keeps the y of the parser: the y of every
  run is the sixth entry of its item's transformation matrix.  The overlay generators flip
  it: every rectangle placed from a position, whether of a run in the family, size and
  font-type loops or of a spacing issue, lies on a page of the document at the x of the
  position and at the height of that page minus the y of the position.
\<close>

theorem y_axis_kept_then_flipped:
  "(env_getTextContent e buf = Inr items \<longrightarrow>
      (\<exists>runs. extractFontMetrics e buf = Inr runs
         \<and> map (\<lambda>m. pos_y (run_position m)) runs
             = map (\<lambda>it. transform_5 (item_transform it)) (concat items)))
   \<and> (\<forall>op \<in> set (place_rectangle pages h0 pos w h col). flipped_rectangle pages pos op)
   \<and> (\<forall>op \<in> set (highlight_family pages h0 ms entry).
         \<exists>m \<in> set ms. flipped_rectangle pages (run_position m) op)
   \<and> (\<forall>op \<in> set (highlight_size pages h0 ms issues).
         \<exists>m \<in> set ms. flipped_rectangle pages (run_position m) op)
   \<and> (\<forall>op \<in> set (highlight_spacing pages h0 spacings).
         \<exists>i \<in> set spacings. \<exists>p. issue_position i = Some p \<and> flipped_rectangle pages p op)
   \<and> (\<forall>ops. fontType_rects pages h0 table ms = Inr ops \<longrightarrow>
         (\<forall>op \<in> set ops. \<exists>m \<in> set ms. flipped_rectangle pages (run_position m) op))"
  using extract_y [of e buf items] place_rectangle_flipped [of _ pages h0 pos w h col]
    highlight_family_flipped [of _ pages h0 ms entry]
    highlight_size_flipped [of _ pages h0 ms issues]
    highlight_spacing_flipped [of _ pages h0 spacings]
    fontType_rects_flipped [of pages h0 table ms]
  by blast

lemma onPageRun_fields:
  "fontFamily onPageRun = ''Arial''" "width onPageRun = 10" "height onPageRun = 10"
  "run_position onPageRun = \<lparr> pos_x = 10, pos_y = 100 \<rparr>" "determineContext onPageRun = Body"
  by (simp_all add: onPageRun_def item_metric_def onPageItem_def determineContext_def)

lemma onPage_place:
  "place_rectangle [800] 800 (run_position onPageRun) w h col
     = [DrawRectangle 0 \<lparr> rect_x = 10, rect_y = 700, rect_width = w, rect_height = h,
                           rect_color = col, rect_opacity = 0.3 \<rparr>]"
  by (simp add: place_rectangle_def pageIndex_of_def draw_at_def onPageRun_fields)

lemma onPage_family:
  "highlight_family [800] 800 [onPageRun]
     (IssueObject [familyIssue Body [''Arial'', ''Times'', ''Helvetica'']] [])
     = [DrawRectangle 0 \<lparr> rect_x = 10, rect_y = 700, rect_width = 10, rect_height = 10,
                           rect_color = colors_fontFamily, rect_opacity = 0.3 \<rparr>]"
  by (simp add: highlight_family_def family_affected_def familyIssue_def metric_rectangle_def
        place_rectangle_def pageIndex_of_def draw_at_def onPageRun_fields or_10_def)

lemma onPage_size:
  "highlight_size [800] 800 [onPageRun] [sizeIssue Body 12 4]
     = [DrawRectangle 0 \<lparr> rect_x = 10, rect_y = 700, rect_width = 10, rect_height = 10,
                           rect_color = colors_fontSize, rect_opacity = 0.3 \<rparr>]"
  by (simp add: highlight_size_def size_affected_def sizeIssue_def metric_rectangle_def
        place_rectangle_def pageIndex_of_def draw_at_def onPageRun_fields or_10_def)

lemma onPage_spacing:
  "highlight_spacing [800] 800 [spacingIssue onPageRun 40]
     = [DrawRectangle 0 \<lparr> rect_x = 10, rect_y = 700, rect_width = 10, rect_height = 10,
                           rect_color = colors_spacing, rect_opacity = 0.3 \<rparr>]"
  by (simp add: highlight_spacing_def spacingIssue_def onPage_place)

lemma onPage_fontColors: "fontColors [onPageRun] = [(''Arial'', (fontColor 0 1, 1))]"
  by (simp add: fontColors_def unique_def set_add_def onPageRun_fields)

lemma onPage_fontType:
  "fontType_rects [800] 800 (fontColors [onPageRun]) [onPageRun]
     = Inr [DrawRectangle 0 \<lparr> rect_x = 10, rect_y = 700, rect_width = 10, rect_height = 10,
                               rect_color = fontColor 0 1, rect_opacity = 0.3 \<rparr>]"
  by (simp add: onPage_fontColors onPageRun_fields pageIndex_of_def draw_at_def or_10_def)

theorem y_axis_kept_then_flipped_witness:
  "env_getTextContent onePageDocument [] = Inr [[onPageItem]]
   \<and> (\<exists>runs. extractFontMetrics onePageDocument [] = Inr runs
         \<and> map (\<lambda>m. pos_y (run_position m)) runs = [100])
   \<and> set (place_rectangle [800] 800 (run_position onPageRun) 10 10 colors_spacing) \<noteq> {}
   \<and> set (highlight_family [800] 800 [onPageRun]
             (IssueObject [familyIssue Body [''Arial'', ''Times'', ''Helvetica'']] [])) \<noteq> {}
   \<and> set (highlight_size [800] 800 [onPageRun] [sizeIssue Body 12 4]) \<noteq> {}
   \<and> set (highlight_spacing [800] 800 [spacingIssue onPageRun 40]) \<noteq> {}
   \<and> fontType_rects [800] 800 (fontColors [onPageRun]) [onPageRun]
       = Inr [DrawRectangle 0 \<lparr> rect_x = 10, rect_y = 700, rect_width = 10, rect_height = 10,
                                 rect_color = fontColor 0 1, rect_opacity = 0.3 \<rparr>]
   \<and> flipped_rectangle [800] (run_position onPageRun)
        (DrawRectangle 0 \<lparr> rect_x = 10, rect_y = 700, rect_width = 10, rect_height = 10,
                             rect_color = fontColor 0 1, rect_opacity = 0.3 \<rparr>)
   \<and> flipped_rectangle [800] (run_position onPageRun)
        (DrawRectangle 0 \<lparr> rect_x = 10, rect_y = 700, rect_width = 10, rect_height = 10,
                             rect_color = colors_fontSize, rect_opacity = 0.3 \<rparr>)"
proof -
  have g: "env_getTextContent onePageDocument [] = Inr [[onPageItem]]"
    by (simp add: onePageDocument_def)
  note C = y_axis_kept_then_flipped [where e = onePageDocument and buf = "[]"
             and items = "[[onPageItem]]" and pages = "[800]" and ?h0.0 = 800
             and pos = "run_position onPageRun" and w = 10 and h = 10 and col = colors_spacing
             and ms = "[onPageRun]"
             and entry = "IssueObject [familyIssue Body [''Arial'', ''Times'', ''Helvetica'']] []"
             and issues = "[sizeIssue Body 12 4]" and spacings = "[spacingIssue onPageRun 40]"
             and table = "fontColors [onPageRun]"]
  from C g have "\<exists>runs. extractFontMetrics onePageDocument [] = Inr runs
         \<and> map (\<lambda>m. pos_y (run_position m)) runs
             = map (\<lambda>it. transform_5 (item_transform it)) (concat [[onPageItem]])"
    by blast
  then have e: "\<exists>runs. extractFontMetrics onePageDocument [] = Inr runs
         \<and> map (\<lambda>m. pos_y (run_position m)) runs = [100]"
    by (simp add: onPageItem_def)
  from C onPage_fontType have t: "flipped_rectangle [800] (run_position onPageRun)
        (DrawRectangle 0 \<lparr> rect_x = 10, rect_y = 700, rect_width = 10, rect_height = 10,
                             rect_color = fontColor 0 1, rect_opacity = 0.3 \<rparr>)"
    by simp
  from C onPage_size have s: "flipped_rectangle [800] (run_position onPageRun)
        (DrawRectangle 0 \<lparr> rect_x = 10, rect_y = 700, rect_width = 10, rect_height = 10,
                             rect_color = colors_fontSize, rect_opacity = 0.3 \<rparr>)"
    by simp
  have n1: "set (place_rectangle [800] 800 (run_position onPageRun) 10 10 colors_spacing) \<noteq> {}"
    by (simp add: onPage_place)
  have n2: "set (highlight_family [800] 800 [onPageRun]
             (IssueObject [familyIssue Body [''Arial'', ''Times'', ''Helvetica'']] [])) \<noteq> {}"
    by (simp add: onPage_family)
  have n3: "set (highlight_size [800] 800 [onPageRun] [sizeIssue Body 12 4]) \<noteq> {}"
    by (simp add: onPage_size)
  have n4: "set (highlight_spacing [800] 800 [spacingIssue onPageRun 40]) \<noteq> {}"
    by (simp add: onPage_spacing)
  from g e n1 n2 n3 n4 onPage_fontType t s show ?thesis by blast
qed

text \<open>The claim as the specification states it fails on the run at y = 100 of a page of
  height 800: its rectangles are placed at y = 700.\<close>

theorem rectangle_y_flipped:
  "pos_y (run_position onPageRun) = 100
   \<and> highlight_spacing [800] 800 [spacingIssue onPageRun 40]
       = [DrawRectangle 0 \<lparr> rect_x = 10, rect_y = 700, rect_width = 10, rect_height = 10,
                             rect_color = colors_spacing, rect_opacity = 0.3 \<rparr>]
   \<and> fontType_rects [800] 800 (fontColors [onPageRun]) [onPageRun]
       = Inr [DrawRectangle 0 \<lparr> rect_x = 10, rect_y = 700, rect_width = 10, rect_height = 10,
                                 rect_color = fontColor 0 1, rect_opacity = 0.3 \<rparr>]"
proof -
  have "pos_y (run_position onPageRun) = 100" by (simp add: onPageRun_fields)
  with onPage_spacing onPage_fontType show ?thesis by blast
qed

section \<open>Positions on no page\<close>

lemma concat_map_filter_skip:
  "(\<And>x. \<not> P x \<Longrightarrow> f x = []) \<Longrightarrow> concat (map f (filter P xs)) = concat (map f xs)"
  by (induction xs) auto

lemma place_rectangle_off_page:
  "\<not> on_page pages h0 pos \<Longrightarrow> place_rectangle pages h0 pos w h col = []"
  by (simp add: place_rectangle_def pageIndex_of_off_page)

lemma metric_rectangle_off_page:
  "\<not> on_page pages h0 (run_position m) \<Longrightarrow> metric_rectangle pages h0 col m = []"
  by (simp add: metric_rectangle_def place_rectangle_off_page)

lemma highlight_size_on_page:
  "highlight_size pages h0 (filter (\<lambda>m. on_page pages h0 (run_position m)) ms) issues
     = highlight_size pages h0 ms issues"
proof -
  have "concat (map (metric_rectangle pages h0 col)
          (size_affected i (filter (\<lambda>m. on_page pages h0 (run_position m)) ms)))
        = concat (map (metric_rectangle pages h0 col) (size_affected i ms))" for i col
  proof -
    have "size_affected i (filter (\<lambda>m. on_page pages h0 (run_position m)) ms)
            = filter (\<lambda>m. on_page pages h0 (run_position m)) (size_affected i ms)"
      by (auto simp: size_affected_def intro: filter_cong)
    then show ?thesis
      by (simp add: concat_map_filter_skip metric_rectangle_off_page)
  qed
  then show ?thesis by (simp add: highlight_size_def)
qed

lemma highlight_family_on_page:
  "highlight_family pages h0 (filter (\<lambda>m. on_page pages h0 (run_position m)) ms) entry
     = highlight_family pages h0 ms entry"
proof -
  have "concat (map (metric_rectangle pages h0 col)
          (family_affected i (filter (\<lambda>m. on_page pages h0 (run_position m)) ms)))
        = concat (map (metric_rectangle pages h0 col) (family_affected i ms))" for i col
  proof -
    have "family_affected i (filter (\<lambda>m. on_page pages h0 (run_position m)) ms)
            = filter (\<lambda>m. on_page pages h0 (run_position m)) (family_affected i ms)"
      by (auto simp: family_affected_def intro: filter_cong)
    then show ?thesis
      by (simp add: concat_map_filter_skip metric_rectangle_off_page)
  qed
  then show ?thesis by (cases entry) (simp_all add: highlight_family_def)
qed

lemma highlight_spacing_on_page:
  "highlight_spacing pages h0
     (filter (\<lambda>i. case issue_position i of None \<Rightarrow> False | Some pos \<Rightarrow> on_page pages h0 pos) issues)
     = highlight_spacing pages h0 issues"
  unfolding highlight_spacing_def
  by (rule concat_map_filter_skip) (auto split: option.splits simp: place_rectangle_off_page)

lemma fontType_rects_on_page:
  "fontType_rects pages h0 table (filter (\<lambda>m. on_page pages h0 (run_position m)) ms)
     = fontType_rects pages h0 table ms"
proof (induction ms)
  case Nil
  then show ?case by simp
next
  case (Cons m ms)
  show ?case
  proof (cases "on_page pages h0 (run_position m)")
    case True
    with Cons show ?thesis by (simp split: sum.splits)
  next
    case False
    then have "pageIndex_of pages h0 (run_position m) = None" by (rule pageIndex_of_off_page)
    with False Cons show ?thesis by (simp split: sum.splits)
  qed
qed

text \<open>
  Claim C10.  A position whose computed page index is negative or not below the number of
  pages has no page and gets no rectangle.  In the loops of both overlay generators the
  runs and the spacing issues at such positions are passed over: the drawing calls are
  those for the positions on a page.  Nothing is raised for them: on a document with
  at least one page both plans are made.
\<close>

theorem off_page_positions_skipped:
  "(\<not> on_page pages h0 pos \<longrightarrow>
      pageIndex_of pages h0 pos = None \<and> place_rectangle pages h0 pos w h col = [])
   \<and> highlight_family pages h0 (filter (\<lambda>m. on_page pages h0 (run_position m)) ms) entry
       = highlight_family pages h0 ms entry
   \<and> highlight_size pages h0 (filter (\<lambda>m. on_page pages h0 (run_position m)) ms) issues
       = highlight_size pages h0 ms issues
   \<and> highlight_spacing pages h0
         (filter (\<lambda>i. case issue_position i of None \<Rightarrow> False
                        | Some p \<Rightarrow> on_page pages h0 p) issues)
       = highlight_spacing pages h0 issues
   \<and> fontType_rects pages h0 table (filter (\<lambda>m. on_page pages h0 (run_position m)) ms)
       = fontType_rects pages h0 table ms
   \<and> (pages \<noteq> [] \<longrightarrow>
         (\<exists>ops. highlight_plan pages ms inc = Inr ops) \<and> (\<exists>ops. fontType_plan pages ms = Inr ops))"
  using pageIndex_of_off_page [of pages h0 pos] place_rectangle_off_page [of pages h0 pos w h col]
    highlight_plan_defined [of pages ms inc] fontType_plan_defined [of pages ms]
  by (simp add: highlight_family_on_page highlight_size_on_page highlight_spacing_on_page
        fontType_rects_on_page)

theorem off_page_positions_skipped_witness:
  "\<not> on_page [800] 800 (run_position offPageRun)
   \<and> place_rectangle [800] 800 (run_position offPageRun) 10 10 colors_fontSize = []
   \<and> \<not> on_page [800] 800 (run_position belowPageRun)
   \<and> place_rectangle [800] 800 (run_position belowPageRun) 10 10 colors_fontSize = []
   \<and> (\<exists>ops. highlight_plan [800] [offPageRun, belowPageRun] noIssues = Inr ops)
   \<and> (\<exists>ops. fontType_plan [800] [offPageRun, belowPageRun] = Inr ops)"
proof -
  have a: "\<not> on_page [800] 800 (run_position offPageRun)"
    by (simp add: on_page_def offPageRun_def)
  have b: "\<not> on_page [800] 800 (run_position belowPageRun)"
    by (simp add: on_page_def belowPageRun_def)
  have ne: "[800::real] \<noteq> []" by simp
  from off_page_positions_skipped [of "[800]" 800 "run_position offPageRun" 10 10 colors_fontSize
         "[offPageRun, belowPageRun]" "IssueArray []" "[]" "[]" noIssues] a ne
  have 1: "place_rectangle [800] 800 (run_position offPageRun) 10 10 colors_fontSize = []
           \<and> (\<exists>ops. highlight_plan [800] [offPageRun, belowPageRun] noIssues = Inr ops)
           \<and> (\<exists>ops. fontType_plan [800] [offPageRun, belowPageRun] = Inr ops)"
    by blast
  from off_page_positions_skipped [of "[800]" 800 "run_position belowPageRun" 10 10 colors_fontSize
         "[]" "IssueArray []" "[]" "[]" noIssues] b
  have 2: "place_rectangle [800] 800 (run_position belowPageRun) 10 10 colors_fontSize = []"
    by blast
  from a b 1 2 show ?thesis by blast
qed

end
